theory Spec2Isabelle
  imports Complex_Main "HOL-Library.Sublist" "HOL-Library.Char_ord" "HOL-Library.List_Lexorder"
begin

section \<open>Data model\<close>

text \<open>
  The finite numbers of JavaScript are rationals; NaN and the infinities are outside the
  model. The profit calculator is modelled with exact arithmetic: none of its branches
  depends on a computed number. The annual totals branch on an accumulated sum, and are
  modelled a second time with the rounding of the host's operations as a parameter. A
  property of a record that may be \<^verbatim>\<open>undefined\<close> or \<^verbatim>\<open>null\<close> is an
  \<open>option\<close>.

  A calendar date is the local year, month (1 to 12) and day of month that the Date
  object of the source reports, after \<^verbatim>\<open>parseISO\<close> or \<^verbatim>\<open>new Date\<close>.
\<close>

record date =
  year :: nat
  month :: nat
  day :: nat

text \<open>
  \<^verbatim>\<open>ShipmentRecord\<close> of \<^verbatim>\<open>types/record.ts\<close>. The numeric properties (the
  cost and price of each fee, and \<^verbatim>\<open>exchangeRate\<close>) are kept in one map from the
  property name to its value, as the source reads the fourteen additional fees through
  computed property names. \<open>loadingDate\<close> is \<open>None\<close> when the property is
  falsy (empty or missing).
\<close>

record ShipmentRecord =
  id_field :: string
  createdAt :: date
  bookingNo :: string
  businessNo :: string
  shipper :: string
  client :: "string option"
  fleet :: string
  loadingDate :: "date option"
  sailingDate :: string
  arrivalDate :: string
  pol :: string
  pod :: string
  vesselName :: string
  containerType :: "string option"
  containerNo :: string
  numfield :: "string \<rightharpoonup> rat"
  isSpecialDeclaration :: bool

definition DEFAULT_EXCHANGE_RATE :: rat where
  "DEFAULT_EXCHANGE_RATE = 72 / 10"

section \<open>Profit calculator\<close>

text \<open>\<^verbatim>\<open>x || d\<close> on a number: \<open>d\<close> when \<open>x\<close> is undefined, null or zero.\<close>

definition or_num :: "rat option \<Rightarrow> rat \<Rightarrow> rat" where
  "or_num x d = (case x of None \<Rightarrow> d | Some v \<Rightarrow> if v = 0 then d else v)"

definition feeKeys :: "string list" where
  "feeKeys = [''thc'', ''printingFee'', ''sealFee'', ''docFee'', ''telexFee'', ''blFee'',
     ''diffPickupFee'', ''weighingFee'', ''vgmFee'', ''amendmentFee'',
     ''detentionFee'', ''demurrageFee'', ''handlingFee'', ''insuranceFee'']"

text \<open>
  The body of the \<^verbatim>\<open>forEach\<close> over \<^verbatim>\<open>feeKeys\<close>, on the object \<open>obj\<close>.
  \<^verbatim>\<open>Number\<close> leaves a number as it is.
\<close>

definition addFee :: "(string \<rightharpoonup> rat) \<Rightarrow> rat \<Rightarrow> string \<Rightarrow> rat" where
  "addFee obj acc key =
     (let cost = or_num (obj (key @ ''Cost'')) 0;
          price = or_num (obj (key @ ''Price'')) 0
      in acc + (price - cost))"

text \<open>\<^verbatim>\<open>calculateTotalProfit\<close> of the shipment list.\<close>

definition calculateTotalProfit :: "ShipmentRecord \<Rightarrow> rat" where
  "calculateTotalProfit record =
     (let rate = or_num (numfield record ''exchangeRate'') (72 / 10);
          oceanProfit = (or_num (numfield record ''oceanFreightPrice'') 0
                         - or_num (numfield record ''oceanFreightCost'') 0) * rate;
          truckingProfit = or_num (numfield record ''truckingFeePrice'') 0
                           - or_num (numfield record ''truckingFeeCost'') 0;
          customsProfit = or_num (numfield record ''customsFeePrice'') 0
                          - or_num (numfield record ''customsFeeCost'') 0;
          additionalProfit = foldl (addFee (numfield record)) 0 feeKeys
      in oceanProfit + truckingProfit + customsProfit + additionalProfit)"

text \<open>
  \<^verbatim>\<open>estimatedProfit\<close> of the shipment form, on the form's current values
  (\<^verbatim>\<open>watch\<close> and \<^verbatim>\<open>getValues\<close> both read them), numbers as
  \<^verbatim>\<open>ShipmentFormValues\<close> types them.
\<close>

definition estimatedProfit :: "(string \<rightharpoonup> rat) \<Rightarrow> rat" where
  "estimatedProfit values =
     (let oceanCost = or_num (values ''oceanFreightCost'') 0;
          oceanPrice = or_num (values ''oceanFreightPrice'') 0;
          rate = or_num (values ''exchangeRate'') (72 / 10);
          oceanProfitUSD = oceanPrice - oceanCost;
          oceanProfitCNY = oceanProfitUSD * rate;
          truckingProfit = or_num (values ''truckingFeePrice'') 0
                           - or_num (values ''truckingFeeCost'') 0;
          customsProfit = or_num (values ''customsFeePrice'') 0
                          - or_num (values ''customsFeeCost'') 0;
          totalAdditionalProfit = foldl (addFee values) 0 feeKeys
      in oceanProfitCNY + truckingProfit + customsProfit + totalAdditionalProfit)"

subsection \<open>The calculator as the specification words it\<close>

text \<open>A missing value counts as 0.\<close>

definition spec_missing_as_zero :: "rat option \<Rightarrow> rat" where
  "spec_missing_as_zero x = (case x of None \<Rightarrow> 0 | Some v \<Rightarrow> v)"

text \<open>Price minus cost of the category \<open>k\<close>.\<close>

definition spec_categoryProfit :: "(string \<rightharpoonup> rat) \<Rightarrow> string \<Rightarrow> rat" where
  "spec_categoryProfit obj k =
     spec_missing_as_zero (obj (k @ ''Price'')) - spec_missing_as_zero (obj (k @ ''Cost''))"

text \<open>The sixteen categories of the local currency, and their summed profit.\<close>

definition spec_localCategories :: "string list" where
  "spec_localCategories = ''truckingFee'' # ''customsFee'' # feeKeys"

definition spec_localProfit :: "(string \<rightharpoonup> rat) \<Rightarrow> rat" where
  "spec_localProfit obj = sum_list (map (spec_categoryProfit obj) spec_localCategories)"

definition zero_or_absent :: "rat option \<Rightarrow> bool" where
  "zero_or_absent x \<longleftrightarrow> x = None \<or> x = Some 0"

section \<open>Filter and search\<close>

text \<open>
  A string is the list of its units. \<^verbatim>\<open>String.prototype.toLowerCase\<close> belongs to
  the host: it folds every cased letter, by tables that are not part of this repository.
  The filter is therefore modelled twice: \<open>filteredShipments_lc\<close> takes the lowercasing
  as the parameter \<open>lower\<close>, and \<open>filteredShipments\<close> is its instance at
  \<open>toLowerCase\<close> below, which folds the ASCII letters and leaves every other unit as
  it is (the host's function on strings of ASCII characters).
\<close>

definition toLowerCase_char :: "char \<Rightarrow> char" where
  "toLowerCase_char c =
     (if CHR ''A'' \<le> c \<and> c \<le> CHR ''Z'' then char_of (of_char c + (32 :: nat)) else c)"

definition toLowerCase :: "string \<Rightarrow> string" where
  "toLowerCase s = map toLowerCase_char s"

text \<open>\<^verbatim>\<open>s.includes(q)\<close>: \<open>q\<close> occurs in \<open>s\<close> at some position.\<close>

fun includes_str :: "string \<Rightarrow> string \<Rightarrow> bool" where
  "includes_str [] q = (q = [])"
| "includes_str (c # s) q = (prefix q (c # s) \<or> includes_str s q)"

text \<open>
  The three conjuncts of the predicate of \<^verbatim>\<open>filteredShipments\<close>. The guard
  \<^verbatim>\<open>item.client &&\<close> fails on a missing and on an empty client.
\<close>

definition matchesSearch :: "ShipmentRecord \<Rightarrow> string \<Rightarrow> bool" where
  "matchesSearch item searchQuery \<longleftrightarrow>
     includes_str (toLowerCase (bookingNo item)) (toLowerCase searchQuery) \<or>
     includes_str (toLowerCase (businessNo item)) (toLowerCase searchQuery) \<or>
     includes_str (toLowerCase (containerNo item)) (toLowerCase searchQuery) \<or>
     includes_str (toLowerCase (shipper item)) (toLowerCase searchQuery) \<or>
     (case client item of
        None \<Rightarrow> False
      | Some c \<Rightarrow> c \<noteq> [] \<and> includes_str (toLowerCase c) (toLowerCase searchQuery))"

definition matchesFilter :: "ShipmentRecord \<Rightarrow> string \<Rightarrow> bool" where
  "matchesFilter item filterType \<longleftrightarrow>
     filterType = ''all'' \<or> containerType item = Some filterType"

definition matchesClient :: "ShipmentRecord \<Rightarrow> string \<Rightarrow> bool" where
  "matchesClient item clientFilter \<longleftrightarrow>
     clientFilter = ''all'' \<or> client item = Some clientFilter"

definition filteredShipments ::
  "ShipmentRecord list \<Rightarrow> string \<Rightarrow> string \<Rightarrow> string \<Rightarrow> ShipmentRecord list" where
  "filteredShipments records searchQuery filterType clientFilter =
     filter (\<lambda>item. matchesSearch item searchQuery \<and> matchesFilter item filterType
                    \<and> matchesClient item clientFilter) records"

text \<open>The same predicate and filter, with the host's lowercasing as a parameter.\<close>

definition matchesSearch_lc :: "(string \<Rightarrow> string) \<Rightarrow> ShipmentRecord \<Rightarrow> string \<Rightarrow> bool" where
  "matchesSearch_lc lower item searchQuery \<longleftrightarrow>
     includes_str (lower (bookingNo item)) (lower searchQuery) \<or>
     includes_str (lower (businessNo item)) (lower searchQuery) \<or>
     includes_str (lower (containerNo item)) (lower searchQuery) \<or>
     includes_str (lower (shipper item)) (lower searchQuery) \<or>
     (case client item of
        None \<Rightarrow> False
      | Some c \<Rightarrow> c \<noteq> [] \<and> includes_str (lower c) (lower searchQuery))"

definition filteredShipments_lc ::
  "(string \<Rightarrow> string) \<Rightarrow> ShipmentRecord list \<Rightarrow> string \<Rightarrow> string \<Rightarrow> string
   \<Rightarrow> ShipmentRecord list" where
  "filteredShipments_lc lower records searchQuery filterType clientFilter =
     filter (\<lambda>item. matchesSearch_lc lower item searchQuery \<and> matchesFilter item filterType
                    \<and> matchesClient item clientFilter) records"

subsection \<open>The filter as the specification words it\<close>

text \<open>The fields the search text is looked up in; the client only when the record has one.\<close>

definition spec_searchFields :: "ShipmentRecord \<Rightarrow> string list" where
  "spec_searchFields item =
     [bookingNo item, businessNo item, containerNo item, shipper item]
     @ (case client item of None \<Rightarrow> [] | Some c \<Rightarrow> [c])"

text \<open>
  The lowercased search text is a contiguous part of one of the lowercased fields, and
  each of the two category filters is the sentinel or equals the record's value.
\<close>

definition spec_keeps ::
  "(string \<Rightarrow> string) \<Rightarrow> string \<Rightarrow> string \<Rightarrow> string \<Rightarrow> ShipmentRecord \<Rightarrow> bool" where
  "spec_keeps lower searchText containerTypeFilter clientFilter item \<longleftrightarrow>
     list_ex (\<lambda>f. sublist (lower searchText) (lower f)) (spec_searchFields item)
     \<and> (containerTypeFilter = ''all'' \<or> containerType item = Some containerTypeFilter)
     \<and> (clientFilter = ''all'' \<or> client item = Some clientFilter)"

section \<open>Shipment store\<close>

text \<open>
  The store \<^verbatim>\<open>useShipmentStore\<close>. Each action is modelled as one sequential run:
  the optimistic \<^verbatim>\<open>set\<close>, then the remote call, whose outcome is an argument
  (\<open>Some message\<close> is the error of the response, \<open>None\<close> a success), then the
  branch on that outcome. No other action of the store runs in between.
\<close>

record ShipmentStore =
  shipments :: "ShipmentRecord list"
  loading :: bool
  error :: "string option"

definition fetchShipments ::
  "string + ShipmentRecord list \<Rightarrow> ShipmentStore \<Rightarrow> ShipmentStore" where
  "fetchShipments response st =
     (let st1 = st\<lparr>loading := True, error := None\<rparr>
      in case response of
           Inl message \<Rightarrow> st1\<lparr>error := Some message, loading := False\<rparr>
         | Inr data \<Rightarrow> st1\<lparr>shipments := data, loading := False\<rparr>)"

text \<open>
  \<open>tempId\<close> is the value of \<^verbatim>\<open>crypto.randomUUID()\<close> and \<open>now\<close> the creation
  time; \<open>refetch\<close> is the response to the \<^verbatim>\<open>fetchShipments\<close> that follows a
  successful insert.
\<close>

definition addShipment ::
  "string \<Rightarrow> date \<Rightarrow> ShipmentRecord \<Rightarrow> string option \<Rightarrow> string + ShipmentRecord list
   \<Rightarrow> ShipmentStore \<Rightarrow> ShipmentStore" where
  "addShipment tempId now shipment insertError refetch st =
     (let newRecord = shipment\<lparr>id_field := tempId, createdAt := now\<rparr>;
          st1 = st\<lparr>shipments := newRecord # shipments st\<rparr>
      in case insertError of
           Some message \<Rightarrow>
             st1\<lparr>shipments := filter (\<lambda>s. id_field s \<noteq> tempId) (shipments st1),
                 error := Some message\<rparr>
         | None \<Rightarrow> fetchShipments refetch st1)"

text \<open>
  The partial record \<^verbatim>\<open>updatedShipment\<close> is modelled by its effect
  \<^verbatim>\<open>{ ...s, ...updatedShipment }\<close> on a record, a function on records.
\<close>

definition updateShipment ::
  "string \<Rightarrow> (ShipmentRecord \<Rightarrow> ShipmentRecord) \<Rightarrow> string option
   \<Rightarrow> ShipmentStore \<Rightarrow> ShipmentStore" where
  "updateShipment ident updatedShipment updateError st =
     (let originalShipments = shipments st;
          st1 = st\<lparr>shipments :=
                  map (\<lambda>s. if id_field s = ident then updatedShipment s else s) (shipments st)\<rparr>
      in case updateError of
           Some message \<Rightarrow> st1\<lparr>shipments := originalShipments, error := Some message\<rparr>
         | None \<Rightarrow> st1)"

definition deleteShipment :: "string \<Rightarrow> string option \<Rightarrow> ShipmentStore \<Rightarrow> ShipmentStore" where
  "deleteShipment ident deleteError st =
     (let originalShipments = shipments st;
          st1 = st\<lparr>shipments := filter (\<lambda>s. id_field s \<noteq> ident) (shipments st)\<rparr>
      in case deleteError of
           Some message \<Rightarrow> st1\<lparr>shipments := originalShipments, error := Some message\<rparr>
         | None \<Rightarrow> st1)"

definition deleteShipments ::
  "string list \<Rightarrow> string option \<Rightarrow> ShipmentStore \<Rightarrow> ShipmentStore" where
  "deleteShipments ids deleteError st =
     (let originalShipments = shipments st;
          st1 = st\<lparr>shipments := filter (\<lambda>s. id_field s \<notin> set ids) (shipments st)\<rparr>
      in case deleteError of
           Some message \<Rightarrow> st1\<lparr>shipments := originalShipments, error := Some message\<rparr>
         | None \<Rightarrow> st1)"

section \<open>Aggregator\<close>

subsection \<open>Maps, arrays and sorting of the host language\<close>

text \<open>
  A \<^verbatim>\<open>Map\<close> keeps its keys in the order of their first insertion: an association list
  with \<^verbatim>\<open>get\<close> and \<^verbatim>\<open>set\<close>. \<^verbatim>\<open>set\<close> on a key of the map replaces the value in
  place, and on a new key appends the entry.
\<close>

definition map_get :: "('k \<times> 'v) list \<Rightarrow> 'k \<Rightarrow> 'v option" where
  "map_get m k = map_of m k"

fun map_set :: "('k \<times> 'v) list \<Rightarrow> 'k \<Rightarrow> 'v \<Rightarrow> ('k \<times> 'v) list" where
  "map_set [] k v = [(k, v)]"
| "map_set (e # m) k v = (if fst e = k then (k, v) # m else e # map_set m k v)"

text \<open>\<^verbatim>\<open>xs[i]\<close> is \<^verbatim>\<open>undefined\<close> outside the array.\<close>

definition js_index :: "'a list \<Rightarrow> int \<Rightarrow> 'a option" where
  "js_index xs i = (if 0 \<le> i \<and> i < int (length xs) then Some (xs ! nat i) else None)"

text \<open>
  \<^verbatim>\<open>Array.prototype.sort\<close> with a comparator is stable. For a comparator that is a
  consistent order the result is the one that stable insertion gives: an element goes
  before the first element of the sorted rest that it does not compare greater than.
\<close>

fun insert_by :: "('a \<Rightarrow> 'a \<Rightarrow> int) \<Rightarrow> 'a \<Rightarrow> 'a list \<Rightarrow> 'a list" where
  "insert_by cmp x [] = [x]"
| "insert_by cmp x (y # ys) = (if cmp x y \<le> 0 then x # y # ys else y # insert_by cmp x ys)"

definition sort_by :: "('a \<Rightarrow> 'a \<Rightarrow> int) \<Rightarrow> 'a list \<Rightarrow> 'a list" where
  "sort_by cmp xs = foldr (insert_by cmp) xs []"

text \<open>
  \<^verbatim>\<open>a.localeCompare(b)\<close> on the keys of the chart, which are digits and hyphens: the
  order of the code units.
\<close>

definition localeCompare :: "string \<Rightarrow> string \<Rightarrow> int" where
  "localeCompare a b = (if a < b then - 1 else if a = b then 0 else 1)"

subsection \<open>Dates\<close>

text \<open>
  \<^verbatim>\<open>format\<close> and \<^verbatim>\<open>startOfWeek\<close> belong to the library date-fns. The patterns made
  of zero-padded numbers are written out here; the start of the week, the week number and
  the month's short name are parameters of the model.
\<close>

definition digit_char :: "nat \<Rightarrow> char" where
  "digit_char n = char_of (48 + n)"

fun decimal :: "nat \<Rightarrow> string" where
  "decimal n = (if n < 10 then [digit_char n] else decimal (n div 10) @ [digit_char (n mod 10)])"

declare decimal.simps [simp del]

definition addLeadingZeros :: "nat \<Rightarrow> nat \<Rightarrow> string" where
  "addLeadingZeros n targetLength =
     replicate (targetLength - length (decimal n)) (CHR ''0'') @ decimal n"

definition format_yyyy_MM :: "date \<Rightarrow> string" where
  "format_yyyy_MM d = addLeadingZeros (year d) 4 @ ''-'' @ addLeadingZeros (month d) 2"

definition format_yyyy_MM_dd :: "date \<Rightarrow> string" where
  "format_yyyy_MM_dd d = format_yyyy_MM d @ ''-'' @ addLeadingZeros (day d) 2"

definition format_MM_dd :: "date \<Rightarrow> string" where
  "format_MM_dd d = addLeadingZeros (month d) 2 @ ''/'' @ addLeadingZeros (day d) 2"

record date_fns =
  startOfWeek :: "date \<Rightarrow> date"
  format_w :: "date \<Rightarrow> string"
  format_MMM :: "date \<Rightarrow> string"

text \<open>\<^verbatim>\<open>s.loadingDate ? parseISO(s.loadingDate) : new Date(s.createdAt)\<close>\<close>

definition anchorDate :: "ShipmentRecord \<Rightarrow> date" where
  "anchorDate s = (case loadingDate s of Some d \<Rightarrow> d | None \<Rightarrow> createdAt s)"

definition yearShipments :: "ShipmentRecord list \<Rightarrow> nat \<Rightarrow> ShipmentRecord list" where
  "yearShipments records selectedYear =
     filter (\<lambda>s. year (anchorDate s) = selectedYear) records"

subsection \<open>Annual totals and month-over-month growth\<close>

text \<open>
  The profit of one record as the statistics view computes it. The expression stands
  inline in each of the loops of \<^verbatim>\<open>StatsView\<close>.
\<close>

definition statsProfit :: "ShipmentRecord \<Rightarrow> rat" where
  "statsProfit s =
     (let rate = or_num (numfield s ''exchangeRate'') (72 / 10)
      in ((or_num (numfield s ''oceanFreightPrice'') 0
           - or_num (numfield s ''oceanFreightCost'') 0) * rate)
         + (or_num (numfield s ''truckingFeePrice'') 0
            - or_num (numfield s ''truckingFeeCost'') 0)
         + (or_num (numfield s ''customsFeePrice'') 0
            - or_num (numfield s ''customsFeeCost'') 0))"

text \<open>
  One round of the loop that fills \<^verbatim>\<open>monthlyStats\<close>. After the \<^verbatim>\<open>has\<close> and
  \<^verbatim>\<open>set\<close> lines the entry \<open>e\<close> at the key is the one the map had, or the fresh
  entry of zeros; the two additions then update it in place.
\<close>

definition monthlyStep ::
  "(string \<times> nat \<times> rat) list \<Rightarrow> ShipmentRecord \<Rightarrow> (string \<times> nat \<times> rat) list" where
  "monthlyStep m s =
     (let k = format_yyyy_MM (anchorDate s);
          e = (case map_get m k of None \<Rightarrow> (0, 0) | Some e \<Rightarrow> e)
      in map_set m k (fst e + 1, snd e + statsProfit s))"

definition monthlyStats :: "ShipmentRecord list \<Rightarrow> (string \<times> nat \<times> rat) list" where
  "monthlyStats yearRecords = foldl monthlyStep [] yearRecords"

record AnnualTotals =
  vol :: nat
  profit :: rat
  volGrowth :: rat
  profitGrowth :: rat

text \<open>
  The memo of the annual totals, in exact arithmetic. The result is \<open>None\<close> where the
  source would read a property of \<^verbatim>\<open>undefined\<close> (the non-null assertions on
  \<^verbatim>\<open>monthlyStats.get\<close>).
  \<^verbatim>\<open>sort()\<close> without a comparator orders the keys as strings, by their code units;
  an empty key would be falsy.
\<close>

definition annualTotals :: "ShipmentRecord list \<Rightarrow> AnnualTotals option" where
  "annualTotals yearRecords =
     (let currentVol = foldl (\<lambda>v s. v + 1) 0 yearRecords;
          currentProfit = foldl (\<lambda>p s. p + statsProfit s) 0 yearRecords;
          noGrowth = \<lparr>vol = currentVol, profit = currentProfit, volGrowth = 0, profitGrowth = 0\<rparr>
      in if length yearRecords = 0
         then Some \<lparr>vol = 0, profit = 0, volGrowth = 0, profitGrowth = 0\<rparr>
         else
           let monthly = monthlyStats yearRecords;
               sortedMonths = sort (map fst monthly);
               latestMonth = js_index sortedMonths (int (length sortedMonths) - 1);
               prevMonth = js_index sortedMonths (int (length sortedMonths) - 2)
           in case (latestMonth, prevMonth) of
                (Some latest, Some previous) \<Rightarrow>
                  if latest = [] \<or> previous = [] then Some noGrowth
                  else (case (map_get monthly latest, map_get monthly previous) of
                          (Some curr_e, Some prev_e) \<Rightarrow>
                            let vGrowth = (if fst prev_e = 0 then 100
                                  else ((rat_of_nat (fst curr_e) - rat_of_nat (fst prev_e))
                                        / rat_of_nat (fst prev_e)) * 100);
                                pGrowth = (if snd prev_e = 0 then 100
                                  else ((snd curr_e - snd prev_e) / snd prev_e) * 100)
                            in Some \<lparr>vol = currentVol, profit = currentProfit,
                                     volGrowth = vGrowth, profitGrowth = pGrowth\<rparr>
                        | _ \<Rightarrow> None)
              | _ \<Rightarrow> Some noGrowth)"

subsection \<open>Annual totals in the arithmetic of the host\<close>

text \<open>
  The memo of the annual totals branches on a computed number: a growth is 100 when the
  previous bucket is \<^verbatim>\<open>=== 0\<close>. Whether an accumulated sum is 0 depends on how the
  host rounds, so the following definitions take the rounding as the parameter \<open>fl\<close>:
  every addition, subtraction, multiplication and division of the source returns \<open>fl\<close>
  of the exact result, in the order in which the source evaluates them, and the literal
  \<^verbatim>\<open>7.2\<close> is \<open>fl (72 / 10)\<close>. For the doubles of the host \<open>fl\<close> is the rounding
  to the nearest double, \<open>double_round\<close> below; overflow and NaN are outside the model. With the identity for
  \<open>fl\<close> these are the exact definitions above. The counts are whole numbers far below
  \<open>2 ^ 53\<close> and are kept exact.
\<close>

definition statsProfit_fl :: "(rat \<Rightarrow> rat) \<Rightarrow> ShipmentRecord \<Rightarrow> rat" where
  "statsProfit_fl fl s =
     (let rate = or_num (numfield s ''exchangeRate'') (fl (72 / 10))
      in fl (fl (fl (fl (or_num (numfield s ''oceanFreightPrice'') 0
                        - or_num (numfield s ''oceanFreightCost'') 0) * rate)
                 + fl (or_num (numfield s ''truckingFeePrice'') 0
                       - or_num (numfield s ''truckingFeeCost'') 0))
             + fl (or_num (numfield s ''customsFeePrice'') 0
                   - or_num (numfield s ''customsFeeCost'') 0)))"

definition monthlyStep_fl ::
  "(rat \<Rightarrow> rat) \<Rightarrow> (string \<times> nat \<times> rat) list \<Rightarrow> ShipmentRecord
   \<Rightarrow> (string \<times> nat \<times> rat) list" where
  "monthlyStep_fl fl m s =
     (let k = format_yyyy_MM (anchorDate s);
          e = (case map_get m k of None \<Rightarrow> (0, 0) | Some e \<Rightarrow> e)
      in map_set m k (fst e + 1, fl (snd e + statsProfit_fl fl s)))"

definition monthlyStats_fl ::
  "(rat \<Rightarrow> rat) \<Rightarrow> ShipmentRecord list \<Rightarrow> (string \<times> nat \<times> rat) list" where
  "monthlyStats_fl fl yearRecords = foldl (monthlyStep_fl fl) [] yearRecords"

definition annualTotals_fl :: "(rat \<Rightarrow> rat) \<Rightarrow> ShipmentRecord list \<Rightarrow> AnnualTotals option" where
  "annualTotals_fl fl yearRecords =
     (let currentVol = foldl (\<lambda>v s. v + 1) 0 yearRecords;
          currentProfit = foldl (\<lambda>p s. fl (p + statsProfit_fl fl s)) 0 yearRecords;
          noGrowth = \<lparr>vol = currentVol, profit = currentProfit, volGrowth = 0, profitGrowth = 0\<rparr>
      in if length yearRecords = 0
         then Some \<lparr>vol = 0, profit = 0, volGrowth = 0, profitGrowth = 0\<rparr>
         else
           let monthly = monthlyStats_fl fl yearRecords;
               sortedMonths = sort (map fst monthly);
               latestMonth = js_index sortedMonths (int (length sortedMonths) - 1);
               prevMonth = js_index sortedMonths (int (length sortedMonths) - 2)
           in case (latestMonth, prevMonth) of
                (Some latest, Some previous) \<Rightarrow>
                  if latest = [] \<or> previous = [] then Some noGrowth
                  else (case (map_get monthly latest, map_get monthly previous) of
                          (Some curr_e, Some prev_e) \<Rightarrow>
                            let vGrowth = (if fst prev_e = 0 then 100
                                  else fl (fl (fl (rat_of_nat (fst curr_e) - rat_of_nat (fst prev_e))
                                               / rat_of_nat (fst prev_e)) * 100));
                                pGrowth = (if snd prev_e = 0 then 100
                                  else fl (fl (fl (snd curr_e - snd prev_e) / snd prev_e) * 100))
                            in Some \<lparr>vol = currentVol, profit = currentProfit,
                                     volGrowth = vGrowth, profitGrowth = pGrowth\<rparr>
                        | _ \<Rightarrow> None)
              | _ \<Rightarrow> Some noGrowth)"

subsection \<open>The rounding to the nearest double\<close>

text \<open>
  The rounding of IEEE 754 binary64 that the host applies after each operation: to the
  nearest value \<open>n * 2 ^ e\<close> with \<open>n < 2 ^ 53\<close> and \<open>- 1074 \<le> e\<close>, a tie going to
  the even \<open>n\<close>. \<open>scale_to_53\<close> halves or doubles a non-negative number until it lies
  between \<open>2 ^ 52\<close> and \<open>2 ^ 53\<close>, or the least exponent is reached (the subnormal
  numbers); 2200 steps are enough for every magnitude between the least and the greatest
  double. Magnitudes above the greatest double, which the host rounds to Infinity, are
  outside the model.
\<close>

fun scale_to_53 :: "nat \<Rightarrow> rat \<Rightarrow> int \<Rightarrow> rat \<times> int" where
  "scale_to_53 0 m e = (m, e)"
| "scale_to_53 (Suc n) m e =
     (if 9007199254740992 \<le> m then scale_to_53 n (m / 2) (e + 1)
      else if m < 4503599627370496 \<and> - 1074 < e then scale_to_53 n (m * 2) (e - 1)
      else (m, e))"

definition round_half_even :: "rat \<Rightarrow> int" where
  "round_half_even m =
     (let f = \<lfloor>m\<rfloor>; r = m - of_int f
      in if r < 1 / 2 then f else if 1 / 2 < r then f + 1 else if even f then f else f + 1)"

definition double_round :: "rat \<Rightarrow> rat" where
  "double_round x =
     (let me = scale_to_53 2200 \<bar>x\<bar> 0;
          n = round_half_even (fst me)
      in sgn x * of_int n * (if 0 \<le> snd me then 2 ^ nat (snd me) else 1 / 2 ^ nat (- snd me)))"

subsection \<open>Top clients and top routes\<close>

text \<open>
  \<^verbatim>\<open>map.set(name, (map.get(name) || 0) + 1)\<close>: the count of a name that the map does
  not have starts from 0 (a stored count of 0 would give 0 through \<^verbatim>\<open>||\<close> as well).
\<close>

definition countStep ::
  "(ShipmentRecord \<Rightarrow> string) \<Rightarrow> (string \<times> nat) list \<Rightarrow> ShipmentRecord \<Rightarrow> (string \<times> nat) list" where
  "countStep nameOf m s =
     (let name = nameOf s
      in map_set m name ((case map_get m name of None \<Rightarrow> 0 | Some n \<Rightarrow> n) + 1))"

definition clientName :: "ShipmentRecord \<Rightarrow> string" where
  "clientName s =
     (case client s of None \<Rightarrow> ''Unknown'' | Some c \<Rightarrow> if c = [] then ''Unknown'' else c)"

text \<open>The route is the two ports around an arrow (U+2192, three bytes in UTF-8).\<close>

definition routeName :: "ShipmentRecord \<Rightarrow> string" where
  "routeName s = pol s @ '' '' @ [char_of (226 :: nat), char_of (134 :: nat), char_of (146 :: nat)]
     @ '' '' @ pod s"

text \<open>
  The comparator \<^verbatim>\<open>(a, b) => b[1] - a[1]\<close>, the sorted entries, and their first five.
  The objects \<^verbatim>\<open>{ name, count }\<close> and \<^verbatim>\<open>{ route, count }\<close> of the result are kept
  as pairs.
\<close>

definition byCountDesc :: "string \<times> nat \<Rightarrow> string \<times> nat \<Rightarrow> int" where
  "byCountDesc a b = int (snd b) - int (snd a)"

definition rankedCounts :: "(ShipmentRecord \<Rightarrow> string) \<Rightarrow> ShipmentRecord list \<Rightarrow> (string \<times> nat) list" where
  "rankedCounts nameOf yearRecords = sort_by byCountDesc (foldl (countStep nameOf) [] yearRecords)"

definition topClients :: "ShipmentRecord list \<Rightarrow> (string \<times> nat) list" where
  "topClients yearRecords = take 5 (rankedCounts clientName yearRecords)"

definition topRoutes :: "ShipmentRecord list \<Rightarrow> (string \<times> nat) list" where
  "topRoutes yearRecords = take 5 (rankedCounts routeName yearRecords)"

subsection \<open>Chart data\<close>

datatype ViewMode = ViewDay | ViewWeek | ViewMonth

record ChartEntry =
  label :: string
  dateStr :: string
  volume :: nat
  profit_e :: rat

text \<open>The key and the label of the period of a date.\<close>

definition periodKey :: "date_fns \<Rightarrow> ViewMode \<Rightarrow> date \<Rightarrow> string \<times> string" where
  "periodKey lib viewMode d =
     (case viewMode of
        ViewDay \<Rightarrow> (format_yyyy_MM_dd d, format_MM_dd d)
      | ViewWeek \<Rightarrow>
          (let weekStart = startOfWeek lib d
           in (format_yyyy_MM_dd weekStart, ''W'' @ format_w lib weekStart))
      | ViewMonth \<Rightarrow> (format_yyyy_MM d, format_MMM lib d))"

definition chartStep ::
  "date_fns \<Rightarrow> ViewMode \<Rightarrow> (string \<times> ChartEntry) list \<Rightarrow> ShipmentRecord
   \<Rightarrow> (string \<times> ChartEntry) list" where
  "chartStep lib viewMode grouped s =
     (let kl = periodKey lib viewMode (anchorDate s);
          entry = (case map_get grouped (fst kl) of
                     None \<Rightarrow> \<lparr>label = snd kl, dateStr = fst kl, volume = 0, profit_e = 0\<rparr>
                   | Some e \<Rightarrow> e)
      in map_set grouped (fst kl)
           (entry\<lparr>volume := volume entry + 1, profit_e := profit_e entry + statsProfit s\<rparr>))"

definition chartData :: "date_fns \<Rightarrow> ViewMode \<Rightarrow> ShipmentRecord list \<Rightarrow> ChartEntry list" where
  "chartData lib viewMode yearRecords =
     sort_by (\<lambda>a b. localeCompare (dateStr a) (dateStr b))
       (map snd (foldl (chartStep lib viewMode) [] yearRecords))"

subsection \<open>The aggregator as the specification words it\<close>

text \<open>
  Growth of a value over the previous one, in percent, in the arithmetic of the host;
  100 when the previous value is 0.
\<close>

definition spec_growth :: "(rat \<Rightarrow> rat) \<Rightarrow> rat \<Rightarrow> rat \<Rightarrow> rat" where
  "spec_growth fl current previous =
     (if previous = 0 then 100 else fl (fl (fl (current - previous) / previous) * 100))"

text \<open>
  The months of the year that have a record, and the bucket of a month: its records, their
  number, and the profit that the statistics view accumulates over them, one rounded
  addition for each record in the order of the collection.
\<close>

definition spec_populatedMonths :: "ShipmentRecord list \<Rightarrow> nat set" where
  "spec_populatedMonths ys = set (map (\<lambda>s. month (anchorDate s)) ys)"

definition spec_monthRecords :: "ShipmentRecord list \<Rightarrow> nat \<Rightarrow> ShipmentRecord list" where
  "spec_monthRecords ys m = filter (\<lambda>s. month (anchorDate s) = m) ys"

definition spec_monthVolume :: "ShipmentRecord list \<Rightarrow> nat \<Rightarrow> rat" where
  "spec_monthVolume ys m = rat_of_nat (length (spec_monthRecords ys m))"

definition spec_monthProfit :: "(rat \<Rightarrow> rat) \<Rightarrow> ShipmentRecord list \<Rightarrow> nat \<Rightarrow> rat" where
  "spec_monthProfit fl ys m =
     foldl (\<lambda>p s. fl (p + statsProfit_fl fl s)) 0 (spec_monthRecords ys m)"

text \<open>
  The text that the template of the route puts between the origin and the destination
  port: a space, the arrow U+2192 in its three bytes, a space.
\<close>

definition route_separator :: string where
  "route_separator = '' '' @ [char_of (226 :: nat), char_of (134 :: nat), char_of (146 :: nat)] @ '' ''"

text \<open>The distinct names of a list, in the order in which they are first met.\<close>

fun spec_firstSeen :: "string list \<Rightarrow> string list" where
  "spec_firstSeen [] = []"
| "spec_firstSeen (x # xs) = x # filter (\<lambda>y. y \<noteq> x) (spec_firstSeen xs)"

text \<open>
  \<open>R\<close> ranks the names of the list \<open>names\<close> by their number of occurrences: each name
  once, with its count, the counts descending, and the names of equal count in the order
  in which they are first met.
\<close>

definition spec_ranked_by_count :: "string list \<Rightarrow> (string \<times> nat) list \<Rightarrow> bool" where
  "spec_ranked_by_count names R \<longleftrightarrow>
     distinct (map fst R)
     \<and> set (map fst R) = set names
     \<and> list_all (\<lambda>e. snd e = count_list names (fst e)) R
     \<and> sorted_wrt (\<lambda>a b. snd b \<le> snd a) R
     \<and> list_all (\<lambda>c. map fst (filter (\<lambda>e. snd e = c) R)
                      = filter (\<lambda>n. count_list names n = c) (spec_firstSeen names)) (map snd R)"

subsection \<open>Auxiliary definitions\<close>

text \<open>The key of the month of a record, an entry of the monthly map or the entry of zeros,
  the key of a month of a year, and the groups of a list of names before they are sorted.\<close>

definition monthKey :: "ShipmentRecord \<Rightarrow> string" where
  "monthKey s = format_yyyy_MM (anchorDate s)"

definition entry_or_zero :: "(nat \<times> rat) option \<Rightarrow> nat \<times> rat" where
  "entry_or_zero e = (case e of None \<Rightarrow> (0, 0) | Some e \<Rightarrow> e)"

definition keyOfMonth :: "nat \<Rightarrow> nat \<Rightarrow> string" where
  "keyOfMonth y m = format_yyyy_MM \<lparr>year = y, month = m, day = 1\<rparr>"

definition spec_groups :: "string list \<Rightarrow> (string \<times> nat) list" where
  "spec_groups names = map (\<lambda>n. (n, count_list names n)) (spec_firstSeen names)"

subsection \<open>Sample data\<close>

definition sample_fees :: "string \<rightharpoonup> rat" where
  "sample_fees = [''oceanFreightCost'' \<mapsto> 1000, ''oceanFreightPrice'' \<mapsto> 1200,
     ''exchangeRate'' \<mapsto> 7, ''truckingFeeCost'' \<mapsto> 500, ''truckingFeePrice'' \<mapsto> 600,
     ''customsFeeCost'' \<mapsto> 200, ''customsFeePrice'' \<mapsto> 250, ''thcCost'' \<mapsto> 0]"

definition blank_record :: ShipmentRecord where
  "blank_record = \<lparr>id_field = ''r0'', createdAt = \<lparr>year = 2024, month = 1, day = 1\<rparr>,
     bookingNo = '''', businessNo = '''', shipper = '''', client = None, fleet = '''',
     loadingDate = None, sailingDate = '''', arrivalDate = '''', pol = '''', pod = '''',
     vesselName = '''', containerType = None, containerNo = '''', numfield = Map.empty,
     isSpecialDeclaration = False\<rparr>"

definition sample_abc123 :: ShipmentRecord where
  "sample_abc123 = blank_record\<lparr>bookingNo := ''ABC123'', businessNo := ''B-7'',
     shipper := ''Delta Co'', containerNo := ''MSKU1''\<rparr>"

definition sample_store :: ShipmentStore where
  "sample_store = \<lparr>shipments = [blank_record], loading = False, error = None\<rparr>"

definition sample_march :: ShipmentRecord where
  "sample_march = blank_record\<lparr>loadingDate := Some \<lparr>year = 2024, month = 3, day = 5\<rparr>,
     client := Some ''Acme'', numfield := [''truckingFeePrice'' \<mapsto> 100]\<rparr>"

definition sample_march_zero :: ShipmentRecord where
  "sample_march_zero = blank_record\<lparr>loadingDate := Some \<lparr>year = 2024, month = 3, day = 20\<rparr>\<rparr>"

definition sample_april :: ShipmentRecord where
  "sample_april = blank_record\<lparr>loadingDate := Some \<lparr>year = 2024, month = 4, day = 9\<rparr>,
     client := Some ''Beta'', numfield := [''truckingFeePrice'' \<mapsto> 150]\<rparr>"

definition sample_march_cents :: ShipmentRecord where
  "sample_march_cents = blank_record\<lparr>loadingDate := Some \<lparr>year = 2024, month = 3, day = 7\<rparr>,
     numfield := [''truckingFeePrice'' \<mapsto> 2 / 5]\<rparr>"

text \<open>
  A record of March with a trucking fee of 100.10 bought and 100.30 sold and a customs fee
  of 0.20 bought: with the exact decimal numbers, and with the doubles that the host
  holds for them.
\<close>

definition sample_march_decimal :: ShipmentRecord where
  "sample_march_decimal = blank_record\<lparr>loadingDate := Some \<lparr>year = 2024, month = 3, day = 7\<rparr>,
     numfield := [''truckingFeeCost'' \<mapsto> 1001 / 10, ''truckingFeePrice'' \<mapsto> 1003 / 10,
       ''customsFeeCost'' \<mapsto> 1 / 5]\<rparr>"

definition sample_march_double :: ShipmentRecord where
  "sample_march_double = blank_record\<lparr>loadingDate := Some \<lparr>year = 2024, month = 3, day = 7\<rparr>,
     numfield := [''truckingFeeCost'' \<mapsto> double_round (1001 / 10),
       ''truckingFeePrice'' \<mapsto> double_round (1003 / 10),
       ''customsFeeCost'' \<mapsto> double_round (1 / 5)]\<rparr>"

text \<open>A coarse rounding, to whole numbers, to try the definitions on.\<close>

definition sample_rounding :: "rat \<Rightarrow> rat" where
  "sample_rounding x = of_int (round x)"

definition sample_sha_lax :: ShipmentRecord where
  "sample_sha_lax = sample_march\<lparr>pol := ''SHA'', pod := ''LAX''\<rparr>"

definition sample_ngb_ham :: ShipmentRecord where
  "sample_ngb_ham = sample_april\<lparr>pol := ''NGB'', pod := ''HAM''\<rparr>"

definition sample_thc :: ShipmentRecord where
  "sample_thc = blank_record\<lparr>numfield := [''thcPrice'' \<mapsto> 100]\<rparr>"

section \<open>Properties of the profit calculator\<close>

lemma or_num_zero: "or_num x 0 = spec_missing_as_zero x"
  by (simp add: or_num_def spec_missing_as_zero_def split: option.splits)

lemma foldl_addFee:
  "foldl (addFee obj) a ks = a + sum_list (map (spec_categoryProfit obj) ks)"
  by (induction ks arbitrary: a) (simp_all add: addFee_def spec_categoryProfit_def or_num_zero)

lemma foldl_addFee_zero:
  "\<forall>k\<in>set ks. zero_or_absent (obj (k @ ''Cost'')) \<and> zero_or_absent (obj (k @ ''Price''))
   \<Longrightarrow> foldl (addFee obj) a ks = a"
  by (induction ks arbitrary: a) (auto simp: addFee_def or_num_def zero_or_absent_def)

lemma calculateTotalProfit_split:
  "calculateTotalProfit r =
     spec_categoryProfit (numfield r) ''oceanFreight''
       * or_num (numfield r ''exchangeRate'') (72 / 10)
     + spec_localProfit (numfield r)"
  by (simp add: calculateTotalProfit_def Let_def foldl_addFee spec_localProfit_def
      spec_localCategories_def spec_categoryProfit_def or_num_zero)

lemma spec_localProfit_rate:
  "spec_localProfit (obj(''exchangeRate'' := x)) = spec_localProfit obj"
  by (simp add: spec_localProfit_def spec_localCategories_def feeKeys_def spec_categoryProfit_def)

text \<open>
  C2. A record with ocean freight 1000 / 1200 at the exchange rate 7.0, trucking 500 / 600,
  customs 200 / 250 and every other fee 0 or absent has the net profit 1550, in the list
  view's calculator and in the form's estimate.
\<close>

theorem end_to_end_scenario_1550:
  assumes "numfield r ''oceanFreightCost'' = Some 1000"
    and "numfield r ''oceanFreightPrice'' = Some 1200"
    and "numfield r ''exchangeRate'' = Some 7"
    and "numfield r ''truckingFeeCost'' = Some 500"
    and "numfield r ''truckingFeePrice'' = Some 600"
    and "numfield r ''customsFeeCost'' = Some 200"
    and "numfield r ''customsFeePrice'' = Some 250"
    and rest: "\<forall>k\<in>set feeKeys. zero_or_absent (numfield r (k @ ''Cost''))
                 \<and> zero_or_absent (numfield r (k @ ''Price''))"
  shows "calculateTotalProfit r = 1550 \<and> estimatedProfit (numfield r) = 1550"
proof -
  have "foldl (addFee (numfield r)) 0 feeKeys = 0"
    using rest by (rule foldl_addFee_zero)
  then show ?thesis using assms(1-7)
    by (simp add: calculateTotalProfit_def estimatedProfit_def Let_def or_num_def)
qed

theorem end_to_end_scenario_1550_witness:
  "calculateTotalProfit (blank_record\<lparr>numfield := sample_fees\<rparr>) = 1550
   \<and> estimatedProfit sample_fees = 1550"
proof -
  have "\<forall>k\<in>set feeKeys. zero_or_absent (sample_fees (k @ ''Cost''))
                 \<and> zero_or_absent (sample_fees (k @ ''Price''))"
    by (simp add: feeKeys_def sample_fees_def zero_or_absent_def)
  then show ?thesis
    using end_to_end_scenario_1550 [of "blank_record\<lparr>numfield := sample_fees\<rparr>"]
    by (simp add: sample_fees_def)
qed

text \<open>
  C3. The ocean-freight difference is multiplied by the record's exchange rate when that
  is a non-zero number, and by 7.2 when it is 0 or missing; the rest of the net profit is
  the sum of price minus cost over the sixteen local categories, which does not depend on
  the exchange rate.
\<close>

theorem ocean_freight_scaled_by_rate:
  "(\<forall>e. numfield r ''exchangeRate'' = Some e \<and> e \<noteq> 0 \<longrightarrow>
      calculateTotalProfit r =
        spec_categoryProfit (numfield r) ''oceanFreight'' * e + spec_localProfit (numfield r))
   \<and> (numfield r ''exchangeRate'' = None \<or> numfield r ''exchangeRate'' = Some 0 \<longrightarrow>
      calculateTotalProfit r =
        spec_categoryProfit (numfield r) ''oceanFreight'' * DEFAULT_EXCHANGE_RATE
        + spec_localProfit (numfield r))
   \<and> spec_localProfit ((numfield r)(''exchangeRate'' := x)) = spec_localProfit (numfield r)"
  by (auto simp: calculateTotalProfit_split or_num_def DEFAULT_EXCHANGE_RATE_def
      spec_localProfit_rate)

theorem ocean_freight_scaled_by_rate_witness:
  "numfield (blank_record\<lparr>numfield := sample_fees\<rparr>) ''exchangeRate'' = Some 7
  \<and> calculateTotalProfit (blank_record\<lparr>numfield := sample_fees\<rparr>) = 200 * 7 + 150
  \<and> numfield (blank_record\<lparr>numfield := sample_fees(''exchangeRate'' \<mapsto> 0)\<rparr>) ''exchangeRate''
      = Some 0
  \<and> calculateTotalProfit (blank_record\<lparr>numfield := sample_fees(''exchangeRate'' \<mapsto> 0)\<rparr>)
      = 200 * (72 / 10) + 150
  \<and> numfield (blank_record\<lparr>numfield := sample_fees(''exchangeRate'' := None)\<rparr>) ''exchangeRate''
      = None
  \<and> calculateTotalProfit (blank_record\<lparr>numfield := sample_fees(''exchangeRate'' := None)\<rparr>)
      = 200 * (72 / 10) + 150"
  using ocean_freight_scaled_by_rate [of "blank_record\<lparr>numfield := sample_fees\<rparr>" None]
    ocean_freight_scaled_by_rate
      [of "blank_record\<lparr>numfield := sample_fees(''exchangeRate'' \<mapsto> 0)\<rparr>" None]
    ocean_freight_scaled_by_rate
      [of "blank_record\<lparr>numfield := sample_fees(''exchangeRate'' := None)\<rparr>" None]
  by (simp add: sample_fees_def spec_localProfit_def spec_localCategories_def feeKeys_def
      spec_categoryProfit_def spec_missing_as_zero_def DEFAULT_EXCHANGE_RATE_def)

text \<open>
  C9. The form's estimated profit and the list view's \<^verbatim>\<open>calculateTotalProfit\<close> are the
  same function of the seventeen cost and price pairs and the exchange rate.
\<close>

theorem estimatedProfit_eq_calculateTotalProfit:
  "estimatedProfit (numfield r) = calculateTotalProfit r"
  by (simp add: estimatedProfit_def calculateTotalProfit_def Let_def)

section \<open>Properties of the filter\<close>

lemma includes_sublist: "includes_str s q \<longleftrightarrow> sublist q s"
  by (induction s) (auto simp: sublist_Cons_right)

lemma matchesSearch_lc_spec:
  assumes "lower [] = []"
  shows "matchesSearch_lc lower item q \<longleftrightarrow>
     list_ex (\<lambda>f. sublist (lower q) (lower f)) (spec_searchFields item)"
  using assms by (cases "client item")
     (auto simp: matchesSearch_lc_def spec_searchFields_def includes_sublist)

lemma spec_keeps_code:
  assumes "lower [] = []"
  shows "spec_keeps lower q t c item \<longleftrightarrow>
     matchesSearch_lc lower item q \<and> matchesFilter item t \<and> matchesClient item c"
  by (simp only: spec_keeps_def matchesSearch_lc_spec [of lower, OF assms] matchesFilter_def
      matchesClient_def)

lemma filteredShipments_lc_spec:
  assumes "lower [] = []"
  shows "filteredShipments_lc lower records q t c = filter (spec_keeps lower q t c) records"
  unfolding filteredShipments_lc_def
  by (rule filter_cong) (simp_all add: spec_keeps_code [of lower, OF assms])

lemma matchesSearch_lc_toLowerCase: "matchesSearch_lc toLowerCase item q = matchesSearch item q"
  by (simp add: matchesSearch_lc_def matchesSearch_def)

lemma filteredShipments_lc_toLowerCase:
  "filteredShipments_lc toLowerCase records q t c = filteredShipments records q t c"
  by (simp add: filteredShipments_lc_def filteredShipments_def matchesSearch_lc_toLowerCase)

lemma empty_query_matches: "matchesSearch item []"
  by (simp add: matchesSearch_def toLowerCase_def includes_sublist)

lemma toLowerCase_samples:
  "toLowerCase [] = []"
  "toLowerCase ''ABC123'' = ''abc123''"
  "toLowerCase ''abc'' = ''abc''"
  "toLowerCase ''ABC'' = ''abc''"
  "toLowerCase ''aBc'' = ''abc''"
  by (simp_all add: toLowerCase_def toLowerCase_char_def char_of_def bit_Suc_0_iff)

text \<open>
  C5. The filter keeps exactly the records of the collection on which the three predicates
  of the specification hold together: the lowercased search text is a substring of the
  lowercased booking number, business number, container number, shipper or client; the
  container-type filter is \<open>all\<close> or equals the record's container type; the client
  filter is \<open>all\<close> or equals the record's client. The empty search text matches every
  record. The search does not tell apart texts that have the same lowercase form, and a
  record with the booking number ABC123 is kept for the search text abc. Here
  \<open>lower\<close> is the lowercasing of the host.
\<close>

theorem filteredShipments_keeps_iff:
  assumes empty: "lower [] = []"
  shows "filteredShipments_lc lower records q t c = filter (spec_keeps lower q t c) records
   \<and> (r \<in> set (filteredShipments_lc lower records q t c)
        \<longleftrightarrow> r \<in> set records \<and> spec_keeps lower q t c r)
   \<and> list_ex (\<lambda>f. sublist (lower []) (lower f)) (spec_searchFields r)
   \<and> filteredShipments_lc lower records [] ''all'' ''all'' = records
   \<and> (lower q = lower q' \<longrightarrow>
        filteredShipments_lc lower records q t c = filteredShipments_lc lower records q' t c)
   \<and> (lower ''ABC123'' = ''abc123'' \<and> lower ''abc'' = ''abc'' \<and> bookingNo r = ''ABC123'' \<longrightarrow>
        filteredShipments_lc lower [r] ''abc'' ''all'' ''all'' = [r])"
proof -
  have a: "filteredShipments_lc lower records q t c = filter (spec_keeps lower q t c) records"
    using empty by (rule filteredShipments_lc_spec)
  have b: "list_ex (\<lambda>f. sublist (lower []) (lower f)) (spec_searchFields r)"
    by (simp add: empty spec_searchFields_def)
  have b': "filteredShipments_lc lower records [] ''all'' ''all'' = records"
    by (simp add: filteredShipments_lc_def matchesSearch_lc_def empty matchesFilter_def
        matchesClient_def includes_sublist)
  have c: "filteredShipments_lc lower records q t c = filteredShipments_lc lower records q' t c"
    if "lower q = lower q'"
  proof -
    from that have "spec_keeps lower q t c = spec_keeps lower q' t c"
      by (simp add: fun_eq_iff spec_keeps_def)
    then show ?thesis by (simp add: filteredShipments_lc_spec [of lower, OF empty])
  qed
  have d: "filteredShipments_lc lower [r] ''abc'' ''all'' ''all'' = [r]"
    if "lower ''ABC123'' = ''abc123'' \<and> lower ''abc'' = ''abc'' \<and> bookingNo r = ''ABC123''"
    using that
    by (simp add: filteredShipments_lc_def matchesSearch_lc_def matchesFilter_def
        matchesClient_def)
  from a b b' c d show ?thesis by simp
qed

theorem filteredShipments_keeps_iff_witness:
  "toLowerCase [] = []
   \<and> filteredShipments_lc toLowerCase [sample_abc123, blank_record] [] ''all'' ''all''
       = [sample_abc123, blank_record]
   \<and> toLowerCase ''ABC'' = toLowerCase ''aBc''
   \<and> filteredShipments_lc toLowerCase [sample_abc123, blank_record] ''ABC'' ''all'' ''all''
       = filteredShipments_lc toLowerCase [sample_abc123, blank_record] ''aBc'' ''all'' ''all''
   \<and> toLowerCase ''ABC123'' = ''abc123'' \<and> toLowerCase ''abc'' = ''abc''
   \<and> bookingNo sample_abc123 = ''ABC123''
   \<and> filteredShipments_lc toLowerCase [sample_abc123] ''abc'' ''all'' ''all'' = [sample_abc123]
   \<and> filteredShipments [sample_abc123] ''abc'' ''all'' ''all'' = [sample_abc123]
   \<and> filteredShipments [sample_abc123, blank_record] ''Abc'' ''all'' ''all'' = [sample_abc123]"
proof -
  have bk: "bookingNo sample_abc123 = ''ABC123''" by (simp add: sample_abc123_def)
  note th = filteredShipments_keeps_iff [of toLowerCase, OF toLowerCase_samples(1)]
  have 1: "filteredShipments_lc toLowerCase [sample_abc123, blank_record] [] ''all'' ''all''
       = [sample_abc123, blank_record]"
    by (rule th [THEN conjunct2, THEN conjunct2, THEN conjunct2, THEN conjunct1])
  have 2: "filteredShipments_lc toLowerCase [sample_abc123, blank_record] ''ABC'' ''all'' ''all''
       = filteredShipments_lc toLowerCase [sample_abc123, blank_record] ''aBc'' ''all'' ''all''"
    by (rule th [THEN conjunct2, THEN conjunct2, THEN conjunct2, THEN conjunct2,
          THEN conjunct1, THEN mp])
       (simp add: toLowerCase_samples)
  have 3: "filteredShipments_lc toLowerCase [sample_abc123] ''abc'' ''all'' ''all''
       = [sample_abc123]"
    by (rule th [THEN conjunct2, THEN conjunct2, THEN conjunct2, THEN conjunct2,
          THEN conjunct2, THEN mp])
       (simp add: toLowerCase_samples bk)
  have 4: "filteredShipments [sample_abc123, blank_record] ''Abc'' ''all'' ''all''
       = [sample_abc123]"
    by (simp add: filteredShipments_def matchesSearch_def matchesFilter_def matchesClient_def
        sample_abc123_def blank_record_def toLowerCase_def toLowerCase_char_def char_of_def
        bit_Suc_0_iff)
  from 1 2 3 4 bk show ?thesis
    by (simp add: toLowerCase_samples filteredShipments_lc_toLowerCase [symmetric])
qed

text \<open>
  C6. The result of the filter is a subsequence of the collection, so the relative order
  of the records it keeps is the order of the input; with the empty search text and both
  filters at \<open>all\<close> the result is the collection itself.
\<close>

theorem filteredShipments_subseq_and_identity:
  "subseq (filteredShipments records q t c) records
   \<and> filteredShipments records [] ''all'' ''all'' = records"
  by (simp add: filteredShipments_def empty_query_matches matchesFilter_def matchesClient_def)

section \<open>Properties of the store\<close>

lemma filter_fresh_id:
  "tempId \<notin> id_field ` set xs \<Longrightarrow> filter (\<lambda>s. id_field s \<noteq> tempId) xs = xs"
  by (induction xs) auto

text \<open>
  C10. When the remote call returns an error, \<^verbatim>\<open>updateShipment\<close>,
  \<^verbatim>\<open>deleteShipment\<close> and \<^verbatim>\<open>deleteShipments\<close> leave the store as it was before
  the call, except for the error field. \<^verbatim>\<open>addShipment\<close> leaves the list without the
  records of the provisional id; when that id was not in the list before, this is the
  store as it was before the call, except for the error field.
\<close>

theorem store_rollback_on_error:
  "updateShipment i p (Some msg) st = st\<lparr>error := Some msg\<rparr>
   \<and> deleteShipment i (Some msg) st = st\<lparr>error := Some msg\<rparr>
   \<and> deleteShipments ids (Some msg) st = st\<lparr>error := Some msg\<rparr>
   \<and> shipments (addShipment tempId now s (Some msg) refetch st)
       = filter (\<lambda>s. id_field s \<noteq> tempId) (shipments st)
   \<and> (tempId \<notin> id_field ` set (shipments st) \<longrightarrow>
        addShipment tempId now s (Some msg) refetch st = st\<lparr>error := Some msg\<rparr>)"
  by (simp add: updateShipment_def deleteShipment_def deleteShipments_def addShipment_def
      Let_def filter_fresh_id)

theorem store_rollback_on_error_witness:
  "''tmp'' \<notin> id_field ` set (shipments sample_store)
   \<and> addShipment ''tmp'' (createdAt blank_record) blank_record (Some ''offline'') (Inr [])
        sample_store = sample_store\<lparr>error := Some ''offline''\<rparr>
   \<and> updateShipment ''r0'' (\<lambda>s. s\<lparr>shipper := ''x''\<rparr>) (Some ''offline'') sample_store
        = sample_store\<lparr>error := Some ''offline''\<rparr>"
  using store_rollback_on_error [of "''r0''" "\<lambda>s. s\<lparr>shipper := ''x''\<rparr>" "''offline''"
      sample_store "[]" "''tmp''" "createdAt blank_record" blank_record "Inr []"]
  by (simp add: sample_store_def blank_record_def)

section \<open>Properties of the aggregator\<close>

subsection \<open>Maps and the monthly statistics\<close>

lemma map_of_map_set: "map_of (map_set m k v) = (map_of m)(k \<mapsto> v)"
  by (induction m) (auto simp: fun_eq_iff)

lemma map_get_map_set: "map_get (map_set m k v) k' = (if k' = k then Some v else map_get m k')"
  by (simp add: map_get_def map_of_map_set)

lemma keys_map_set:
  "map fst (map_set m k v) = (if k \<in> set (map fst m) then map fst m else map fst m @ [k])"
  by (induction m) auto

lemma distinct_map_set: "distinct (map fst m) \<Longrightarrow> distinct (map fst (map_set m k v))"
  by (simp add: keys_map_set)

lemma map_get_Nil: "map_get [] k = None"
  by (simp add: map_get_def)

lemma filter_no_key: "k \<notin> f ` set ys \<Longrightarrow> filter (\<lambda>s. f s = k) ys = []"
  by (induction ys) auto

lemma map_get_monthlyStep_fl:
  "map_get (monthlyStep_fl fl m s) k =
     (if k = monthKey s
      then Some (fst (entry_or_zero (map_get m k)) + 1,
                 fl (snd (entry_or_zero (map_get m k)) + statsProfit_fl fl s))
      else map_get m k)"
  by (simp add: monthlyStep_fl_def Let_def map_get_map_set monthKey_def entry_or_zero_def)

lemma keys_monthlyStep_fl:
  "set (map fst (monthlyStep_fl fl m s)) = insert (monthKey s) (set (map fst m))"
  by (auto simp: monthlyStep_fl_def Let_def keys_map_set monthKey_def)

lemma distinct_monthlyStep_fl:
  "distinct (map fst m) \<Longrightarrow> distinct (map fst (monthlyStep_fl fl m s))"
  by (simp add: monthlyStep_fl_def Let_def distinct_map_set)

lemma map_get_foldl_monthlyStep_fl:
  "map_get (foldl (monthlyStep_fl fl) m ys) k =
     (if k \<in> monthKey ` set ys
      then Some (fst (entry_or_zero (map_get m k)) + length (filter (\<lambda>s. monthKey s = k) ys),
                 foldl (\<lambda>p s. fl (p + statsProfit_fl fl s)) (snd (entry_or_zero (map_get m k)))
                   (filter (\<lambda>s. monthKey s = k) ys))
      else map_get m k)"
proof (induction ys arbitrary: m)
  case Nil
  then show ?case by simp
next
  case (Cons y ys)
  show ?case
    by (auto simp: Cons.IH map_get_monthlyStep_fl entry_or_zero_def filter_no_key)
qed

lemma keys_foldl_monthlyStep_fl:
  "set (map fst (foldl (monthlyStep_fl fl) m ys)) = set (map fst m) \<union> monthKey ` set ys"
  by (induction ys arbitrary: m) (auto simp: keys_monthlyStep_fl simp del: set_map)

lemma distinct_foldl_monthlyStep_fl:
  "distinct (map fst m) \<Longrightarrow> distinct (map fst (foldl (monthlyStep_fl fl) m ys))"
  by (induction ys arbitrary: m) (simp_all add: distinct_monthlyStep_fl)

lemma map_get_monthlyStats_fl:
  "map_get (monthlyStats_fl fl ys) k =
     (if k \<in> monthKey ` set ys
      then Some (length (filter (\<lambda>s. monthKey s = k) ys),
                 foldl (\<lambda>p s. fl (p + statsProfit_fl fl s)) 0 (filter (\<lambda>s. monthKey s = k) ys))
      else None)"
  by (simp add: monthlyStats_fl_def map_get_foldl_monthlyStep_fl entry_or_zero_def map_get_Nil)

lemma keys_monthlyStats_fl: "set (map fst (monthlyStats_fl fl ys)) = monthKey ` set ys"
  by (simp add: monthlyStats_fl_def keys_foldl_monthlyStep_fl del: set_map)

lemma distinct_monthlyStats_fl: "distinct (map fst (monthlyStats_fl fl ys))"
  by (simp add: monthlyStats_fl_def distinct_foldl_monthlyStep_fl)

text \<open>With the identity for the rounding these are the exact definitions.\<close>

lemma statsProfit_fl_id: "statsProfit_fl (\<lambda>x. x) s = statsProfit s"
  by (simp add: statsProfit_fl_def statsProfit_def)

lemma monthlyStats_fl_id: "monthlyStats_fl (\<lambda>x. x) ys = monthlyStats ys"
proof -
  have "monthlyStep_fl (\<lambda>x. x) = monthlyStep"
    by (simp add: fun_eq_iff monthlyStep_fl_def monthlyStep_def statsProfit_fl_id)
  then show ?thesis by (simp add: monthlyStats_fl_def monthlyStats_def)
qed

lemma annualTotals_fl_id: "annualTotals_fl (\<lambda>x. x) ys = annualTotals ys"
  unfolding annualTotals_fl_def annualTotals_def monthlyStats_fl_id statsProfit_fl_id ..

lemma foldl_count: "foldl (\<lambda>v s. v + 1) (n::nat) ys = n + length ys"
  by (induction ys arbitrary: n) simp_all

lemma foldl_profit: "foldl (\<lambda>p s. p + statsProfit s) a ys = a + sum_list (map statsProfit ys)"
  by (induction ys arbitrary: a) simp_all

lemma last_sorted_Max:
  fixes xs :: "'a::linorder list"
  assumes "sorted xs" "xs \<noteq> []"
  shows "last xs = Max (set xs)"
proof -
  have "\<forall>x\<in>set xs. x \<le> last xs"
    using assms by (induction xs) (auto)
  then show ?thesis using assms(2) by (intro Max_eqI [symmetric]) auto
qed

lemma second_last_sorted_Max:
  fixes xs :: "'a::linorder list"
  assumes "sorted xs" "distinct xs" "2 \<le> length xs"
  shows "xs ! (length xs - 2) = Max (set xs - {Max (set xs)})"
proof -
  from assms(3) have ne: "xs \<noteq> []" by auto
  have bne: "butlast xs \<noteq> []" using assms(3) by (cases xs rule: rev_cases) auto
  have sb: "sorted (butlast xs)" using assms(1) by (simp add: sorted_butlast ne)
  have "distinct (butlast xs @ [last xs])"
    using assms(2) append_butlast_last_id [OF ne] by simp
  then have notin: "last xs \<notin> set (butlast xs)" by simp
  have "set (butlast xs @ [last xs]) = set xs"
    using append_butlast_last_id [OF ne] by simp
  then have "set xs - {last xs} = set (butlast xs)"
    using notin by auto
  then have "Max (set xs - {Max (set xs)}) = last (butlast xs)"
    using last_sorted_Max [OF assms(1) ne] last_sorted_Max [OF sb bne] by simp
  also have "\<dots> = xs ! (length xs - 2)"
    using bne assms(3) by (simp add: last_conv_nth nth_butlast numeral_2_eq_2)
  finally show ?thesis by simp
qed

lemma js_index_last:
  "xs \<noteq> [] \<Longrightarrow> js_index xs (int (length xs) - 1) = Some (last xs)"
  by (cases xs rule: rev_cases) (auto simp: js_index_def nth_append)

lemma js_index_second_last:
  "js_index xs (int (length xs) - 2) =
     (if 2 \<le> length xs then Some (xs ! (length xs - 2)) else None)"
  by (auto simp: js_index_def nat_diff_distrib')

subsection \<open>The order of the month keys\<close>

lemma of_char_digit_char: "a < 10 \<Longrightarrow> of_char (digit_char a) = 48 + a"
  by (simp add: digit_char_def)

lemma digit_char_less: "a < 10 \<Longrightarrow> b < 10 \<Longrightarrow> digit_char a < digit_char b \<longleftrightarrow> a < b"
  by (simp add: less_char_def of_char_digit_char)

lemma digit_char_eq:
  assumes "a < 10" "b < 10"
  shows "digit_char a = digit_char b \<longleftrightarrow> a = b"
proof
  assume "digit_char a = digit_char b"
  then have "(of_char (digit_char a) :: nat) = of_char (digit_char b)" by simp
  then show "a = b" using assms by (simp add: of_char_digit_char)
qed simp

lemma digit_char_0: "digit_char 0 = CHR ''0''"
  by (simp add: digit_char_def char_of_def bit_Suc_0_iff)

lemma pad2: "m < 100 \<Longrightarrow> addLeadingZeros m 2 = [digit_char (m div 10), digit_char (m mod 10)]"
proof -
  assume m: "m < 100"
  show ?thesis
  proof (cases "m < 10")
    case True
    then show ?thesis by (simp add: addLeadingZeros_def decimal.simps [of m] digit_char_0)
  next
    case False
    with m have "m div 10 < 10" by simp
    with False show ?thesis
      by (simp add: addLeadingZeros_def decimal.simps [of m] decimal.simps [of "m div 10"])
  qed
qed

lemma pad2_less:
  assumes "m < 100" "n < 100"
  shows "addLeadingZeros m 2 < addLeadingZeros n 2 \<longleftrightarrow> m < n"
proof -
  have d: "m div 10 < 10" "n div 10 < 10" "m mod 10 < 10" "n mod 10 < 10" using assms by simp_all
  have "m = 10 * (m div 10) + m mod 10" "n = 10 * (n div 10) + n mod 10" by simp_all
  then have "m < n \<longleftrightarrow> m div 10 < n div 10 \<or> m div 10 = n div 10 \<and> m mod 10 < n mod 10"
    using d by arith
  then show ?thesis
    using d by (simp add: pad2 assms digit_char_less digit_char_eq)
qed

lemma append_less_cancel:
  fixes xs :: "'a::linorder list"
  shows "xs @ ys < xs @ zs \<longleftrightarrow> ys < zs"
  by (induction xs) simp_all

lemma format_yyyy_MM_less:
  assumes "year d = year d'" "month d < 100" "month d' < 100"
  shows "format_yyyy_MM d < format_yyyy_MM d' \<longleftrightarrow> month d < month d'"
proof -
  have "format_yyyy_MM d < format_yyyy_MM d'
        \<longleftrightarrow> addLeadingZeros (month d) 2 < addLeadingZeros (month d') 2"
    unfolding format_yyyy_MM_def assms(1) append_less_cancel ..
  then show ?thesis using assms(2,3) by (simp only: pad2_less)
qed

lemma format_yyyy_MM_nonempty: "format_yyyy_MM d \<noteq> []"
  by (simp add: format_yyyy_MM_def)

lemma Max_image_mono_on:
  fixes g :: "'a::linorder \<Rightarrow> 'b::linorder"
  assumes "finite S" "S \<noteq> {}" "\<And>a b. a \<in> S \<Longrightarrow> b \<in> S \<Longrightarrow> a \<le> b \<Longrightarrow> g a \<le> g b"
  shows "Max (g ` S) = g (Max S)"
proof (rule Max_eqI)
  show "finite (g ` S)" using assms(1) by simp
  show "g (Max S) \<in> g ` S" using assms(1,2) by simp
  fix y assume "y \<in> g ` S"
  then obtain a where a: "a \<in> S" "y = g a" by auto
  then have "a \<le> Max S" using assms(1) by simp
  then show "y \<le> g (Max S)" using a assms by (simp add: Max_in)
qed

lemma keyOfMonth_less: "a < 100 \<Longrightarrow> b < 100 \<Longrightarrow> keyOfMonth y a < keyOfMonth y b \<longleftrightarrow> a < b"
  unfolding keyOfMonth_def by (subst format_yyyy_MM_less) simp_all

lemma keyOfMonth_le: "a < 100 \<Longrightarrow> b < 100 \<Longrightarrow> keyOfMonth y a \<le> keyOfMonth y b \<longleftrightarrow> a \<le> b"
  using keyOfMonth_less [of b a y] by (simp add: not_less [symmetric])

lemma keyOfMonth_eq: "a < 100 \<Longrightarrow> b < 100 \<Longrightarrow> keyOfMonth y a = keyOfMonth y b \<longleftrightarrow> a = b"
  using keyOfMonth_le [of a b y] keyOfMonth_le [of b a y] by auto

lemma monthKey_keyOfMonth: "monthKey s = keyOfMonth (year (anchorDate s)) (month (anchorDate s))"
  by (simp add: monthKey_def keyOfMonth_def format_yyyy_MM_def)

lemma keys_of_year:
  assumes "\<forall>s\<in>set ys. year (anchorDate s) = y \<and> month (anchorDate s) < 100"
  shows "monthKey ` set ys = keyOfMonth y ` spec_populatedMonths ys"
    and "inj_on (keyOfMonth y) (spec_populatedMonths ys)"
    and "\<forall>m\<in>spec_populatedMonths ys. m < 100"
    and "m < 100 \<Longrightarrow> filter (\<lambda>s. monthKey s = keyOfMonth y m) ys = spec_monthRecords ys m"
proof -
  show "monthKey ` set ys = keyOfMonth y ` spec_populatedMonths ys"
    using assms by (auto simp: spec_populatedMonths_def monthKey_keyOfMonth image_iff)
  show b: "\<forall>m\<in>spec_populatedMonths ys. m < 100"
    using assms by (auto simp: spec_populatedMonths_def)
  show "inj_on (keyOfMonth y) (spec_populatedMonths ys)"
    using b by (auto simp: inj_on_def keyOfMonth_eq)
  show "filter (\<lambda>s. monthKey s = keyOfMonth y m) ys = spec_monthRecords ys m" if "m < 100"
    unfolding spec_monthRecords_def
    using assms that by (intro filter_cong) (auto simp: monthKey_keyOfMonth keyOfMonth_eq)
qed

subsection \<open>Annual totals and growth\<close>

lemma sorted_keys_facts:
  "sorted (sort (map fst (monthlyStats_fl fl ys)))"
  "distinct (sort (map fst (monthlyStats_fl fl ys)))"
  "set (sort (map fst (monthlyStats_fl fl ys))) = monthKey ` set ys"
  "length (sort (map fst (monthlyStats_fl fl ys))) = card (monthKey ` set ys)"
proof -
  show "sorted (sort (map fst (monthlyStats_fl fl ys)))" by simp
  show d: "distinct (sort (map fst (monthlyStats_fl fl ys)))"
    by (simp add: distinct_monthlyStats_fl)
  show s: "set (sort (map fst (monthlyStats_fl fl ys))) = monthKey ` set ys"
    using keys_monthlyStats_fl [of fl ys] by simp
  show "length (sort (map fst (monthlyStats_fl fl ys))) = card (monthKey ` set ys)"
    using distinct_card [OF d] s by simp
qed

lemma annualTotals_fl_one_month:
  assumes "ys \<noteq> []" "card (monthKey ` set ys) < 2"
  shows "annualTotals_fl fl ys = Some \<lparr>vol = length ys,
           profit = foldl (\<lambda>p s. fl (p + statsProfit_fl fl s)) 0 ys,
           volGrowth = 0, profitGrowth = 0\<rparr>"
proof -
  let ?xs = "sort (map fst (monthlyStats_fl fl ys))"
  have len: "length ?xs < 2" using assms(2) by (simp only: sorted_keys_facts(4))
  have "?xs \<noteq> []"
    using sorted_keys_facts(3) [of fl ys] assms(1) by (metis image_is_empty set_empty)
  then have l: "js_index ?xs (int (length ?xs) - 1) = Some (last ?xs)" by (rule js_index_last)
  have p: "js_index ?xs (int (length ?xs) - 2) = None"
    using len by (simp only: js_index_second_last) simp
  show ?thesis
    unfolding annualTotals_fl_def Let_def l p foldl_count using assms(1)
    by simp
qed

lemma annualTotals_one_month:
  assumes "ys \<noteq> []" "card (monthKey ` set ys) < 2"
  shows "annualTotals ys = Some \<lparr>vol = length ys, profit = sum_list (map statsProfit ys),
           volGrowth = 0, profitGrowth = 0\<rparr>"
  using annualTotals_fl_one_month [OF assms, of "\<lambda>x. x"]
  by (simp add: annualTotals_fl_id statsProfit_fl_id foldl_profit)

lemma annualTotals_fl_two_months:
  assumes "ys \<noteq> []" "2 \<le> card (monthKey ` set ys)"
  defines "k1 \<equiv> Max (monthKey ` set ys)"
  defines "k2 \<equiv> Max (monthKey ` set ys - {k1})"
  assumes ne: "k1 \<noteq> []" "k2 \<noteq> []"
  shows "annualTotals_fl fl ys = Some \<lparr>vol = length ys,
           profit = foldl (\<lambda>p s. fl (p + statsProfit_fl fl s)) 0 ys,
           volGrowth = spec_growth fl (rat_of_nat (length (filter (\<lambda>s. monthKey s = k1) ys)))
                                   (rat_of_nat (length (filter (\<lambda>s. monthKey s = k2) ys))),
           profitGrowth = spec_growth fl
              (foldl (\<lambda>p s. fl (p + statsProfit_fl fl s)) 0 (filter (\<lambda>s. monthKey s = k1) ys))
              (foldl (\<lambda>p s. fl (p + statsProfit_fl fl s)) 0 (filter (\<lambda>s. monthKey s = k2) ys))\<rparr>"
proof -
  let ?xs = "sort (map fst (monthlyStats_fl fl ys))"
  let ?K = "monthKey ` set ys"
  let ?acc = "foldl (\<lambda>p s. fl (p + statsProfit_fl fl s)) 0"
  have len: "2 \<le> length ?xs" using assms(2) by (simp only: sorted_keys_facts(4))
  have xne: "?xs \<noteq> []"
  proof
    assume "?xs = []"
    then have "length ?xs = 0" by (simp only: list.size)
    with len show False by linarith
  qed
  have last: "last ?xs = k1"
    using last_sorted_Max [OF sorted_keys_facts(1) xne] by (simp only: sorted_keys_facts(3) k1_def)
  have prev: "?xs ! (length ?xs - 2) = k2"
    using second_last_sorted_Max [OF sorted_keys_facts(1) sorted_keys_facts(2) len]
    by (simp only: sorted_keys_facts(3) k1_def k2_def)
  have l: "js_index ?xs (int (length ?xs) - 1) = Some k1"
    using js_index_last [OF xne] last by simp
  have p: "js_index ?xs (int (length ?xs) - 2) = Some k2"
    using len prev by (simp only: js_index_second_last) simp
  have fin: "finite ?K" by simp
  have Kne: "?K \<noteq> {}" using assms(1) by simp
  have k1in: "k1 \<in> ?K" unfolding k1_def using fin Kne by (rule Max_in)
  have "card (?K - {k1}) \<ge> 1" using assms(2) k1in by simp
  then have "?K - {k1} \<noteq> {}" by (metis card.empty not_one_le_zero)
  then have "k2 \<in> ?K - {k1}" unfolding k2_def using fin by (intro Max_in) auto
  then have k2in: "k2 \<in> ?K" by simp
  have g1: "map_get (monthlyStats_fl fl ys) k1
      = Some (length (filter (\<lambda>s. monthKey s = k1) ys), ?acc (filter (\<lambda>s. monthKey s = k1) ys))"
    using k1in by (simp only: map_get_monthlyStats_fl if_True)
  have g2: "map_get (monthlyStats_fl fl ys) k2
      = Some (length (filter (\<lambda>s. monthKey s = k2) ys), ?acc (filter (\<lambda>s. monthKey s = k2) ys))"
    using k2in by (simp only: map_get_monthlyStats_fl if_True)
  show ?thesis
    unfolding annualTotals_fl_def Let_def l p foldl_count using assms(1) ne
    by (simp add: spec_growth_def g1 g2)
qed

lemma sample_months:
  "spec_populatedMonths [sample_march, sample_april] = {3, 4}"
  "spec_populatedMonths [sample_march_zero, sample_april] = {3, 4}"
  "spec_populatedMonths [sample_march_cents, sample_april] = {3, 4}"
  "Max {3, 4 :: nat} = 4"
  "Max ({3, 4} - {4 :: nat}) = 3"
  "card {3, 4 :: nat} = 2"
  by (simp_all add: spec_populatedMonths_def sample_march_def sample_march_zero_def
      sample_march_cents_def sample_april_def blank_record_def anchorDate_def insert_Diff_if)

lemma sample_buckets:
  "spec_monthProfit (\<lambda>x. x) [sample_march, sample_april] 3 = 100"
  "spec_monthProfit (\<lambda>x. x) [sample_march, sample_april] 4 = 150"
  "spec_monthProfit (\<lambda>x. x) [sample_march_zero, sample_april] 3 = 0"
  "spec_monthProfit (\<lambda>x. x) [sample_march_zero, sample_april] 4 = 150"
  "spec_monthProfit (\<lambda>x. x) [sample_march_cents, sample_april] 3 = 2 / 5"
  "spec_monthProfit (\<lambda>x. x) [sample_march_cents, sample_april] 4 = 150"
  "spec_monthVolume [sample_march, sample_april] 3 = 1"
  "spec_monthVolume [sample_march, sample_april] 4 = 1"
  "spec_monthVolume [sample_march_zero, sample_april] 3 = 1"
  "spec_monthVolume [sample_march_zero, sample_april] 4 = 1"
  "spec_monthVolume [sample_march_cents, sample_april] 3 = 1"
  "spec_monthVolume [sample_march_cents, sample_april] 4 = 1"
  by (simp_all add: spec_monthProfit_def spec_monthVolume_def spec_monthRecords_def
      sample_march_def sample_march_zero_def sample_march_cents_def sample_april_def
      blank_record_def anchorDate_def statsProfit_fl_def or_num_def)

lemma sample_rounding_values:
  "sample_rounding 0 = 0"
  "sample_rounding (2 / 5) = 0"
  "sample_rounding (72 / 10) = 7"
  "sample_rounding 150 = 150"
  "sample_rounding 100 = 100"
  by (simp_all add: sample_rounding_def round_def floor_eq_iff)

lemma sample_buckets_rounded:
  "spec_monthProfit sample_rounding [sample_march_cents, sample_april] 3 = 0"
  "spec_monthProfit sample_rounding [sample_march_cents, sample_april] 4 = 150"
  by (simp_all add: spec_monthProfit_def spec_monthRecords_def
      sample_march_cents_def sample_april_def
      blank_record_def anchorDate_def statsProfit_fl_def or_num_def sample_rounding_values)

text \<open>The rounding to the nearest double, evaluated.\<close>

lemma scale_to_53_numeral:
  "scale_to_53 (numeral k) m e =
     (if 9007199254740992 \<le> m then scale_to_53 (pred_numeral k) (m / 2) (e + 1)
      else if m < 4503599627370496 \<and> - 1074 < e then scale_to_53 (pred_numeral k) (m * 2) (e - 1)
      else (m, e))"
  by (simp add: numeral_eq_Suc)

lemma floor_numeral_div: "\<lfloor>numeral a / numeral b :: rat\<rfloor> = numeral a div numeral b"
  using floor_divide_of_int_eq [of "numeral a" "numeral b", where ?'a = rat] by simp

lemmas double_eval = double_round_def round_half_even_def scale_to_53_numeral Let_def
  floor_numeral_div

lemma double_round_values:
  "double_round 0 = 0"
  "double_round 1 = 1"
  "double_round 100 = 100"
  "double_round 150 = 150"
  "double_round (- 150) = - 150"
  "double_round (1 / 2) = 1 / 2"
  "double_round (1 / 10) = 3602879701896397 / 36028797018963968"
  "double_round (1 / 5) = 3602879701896397 / 18014398509481984"
  "double_round (3 / 10) = 5404319552844595 / 18014398509481984"
  "double_round (72 / 10) = 8106479329266893 / 1125899906842624"
  "double_round (1001 / 10) = 3521955646092083 / 35184372088832"
  "double_round (1003 / 10) = 7057985041019699 / 70368744177664"
  by (simp_all add: double_eval)

text \<open>In the host \<^verbatim>\<open>0.1 + 0.2\<close> is not \<^verbatim>\<open>0.3\<close>.\<close>

lemma double_round_tenths:
  "double_round (double_round (1 / 10) + double_round (1 / 5))
     = 5404319552844596 / 18014398509481984"
  "double_round (double_round (1 / 10) + double_round (1 / 5)) \<noteq> double_round (3 / 10)"
  by (simp_all add: double_round_values) (simp_all add: double_eval)

lemma statsProfit_sample_march:
  "statsProfit sample_march_decimal = 0"
  "statsProfit_fl double_round sample_march_double = 51 / 18014398509481984"
  by (simp_all add: statsProfit_def statsProfit_fl_def sample_march_decimal_def
      sample_march_double_def blank_record_def or_num_def double_round_values)
    (simp_all add: double_eval)

lemma sample_months_double:
  "spec_populatedMonths [sample_march_decimal, sample_april] = {3, 4}"
  "spec_populatedMonths [sample_march_double, sample_april] = {3, 4}"
  "spec_monthVolume [sample_march_decimal, sample_april] 3 = 1"
  "spec_monthVolume [sample_march_decimal, sample_april] 4 = 1"
  "spec_monthVolume [sample_march_double, sample_april] 3 = 1"
  "spec_monthVolume [sample_march_double, sample_april] 4 = 1"
  by (simp_all add: spec_populatedMonths_def spec_monthVolume_def spec_monthRecords_def
      sample_march_decimal_def sample_march_double_def sample_april_def blank_record_def
      anchorDate_def insert_Diff_if)

lemma sample_buckets_decimal:
  "spec_monthProfit (\<lambda>x. x) [sample_march_decimal, sample_april] 3 = 0"
  "spec_monthProfit (\<lambda>x. x) [sample_march_decimal, sample_april] 4 = 150"
  by (simp_all add: spec_monthProfit_def spec_monthRecords_def
      sample_march_decimal_def sample_april_def
      blank_record_def anchorDate_def statsProfit_fl_def or_num_def)

lemma sample_buckets_double:
  "spec_monthProfit double_round [sample_march_double, sample_april] 3
     = 51 / 18014398509481984"
  "spec_monthProfit double_round [sample_march_double, sample_april] 4 = 150"
   apply (simp_all add: spec_monthProfit_def spec_monthRecords_def anchorDate_def)
   apply (simp_all add: sample_march_double_def sample_april_def blank_record_def
      statsProfit_fl_def or_num_def double_round_values)
  apply (simp_all add: double_eval)
  done

lemma sample_growth_double:
  "spec_growth double_round 1 1 = 0"
  "spec_growth double_round 150 (51 / 18014398509481984) = 5298352502788818944"
  by (simp_all add: spec_growth_def double_eval)

text \<open>
  C4. For a non-empty collection of records of one year, the growth of the volume and of
  the profit is computed from the buckets of the two latest months that have a record,
  whatever the granularity of the chart: it is (current - previous) / previous * 100 in
  the arithmetic of the host, and 100 when the previous value, as the host has
  accumulated it, is 0. With fewer than two populated months both growths are 0. This
  holds for every rounding \<open>fl\<close> of the host's operations. The profit of a bucket is the
  sum that the statistics view accumulates.
\<close>

theorem month_over_month_growth:
  assumes ne: "ys \<noteq> []"
    and yr: "\<forall>s\<in>set ys. year (anchorDate s) = y \<and> month (anchorDate s) \<in> {1..12}"
  shows "\<exists>t. annualTotals_fl fl ys = Some t
     \<and> (card (spec_populatedMonths ys) < 2 \<longrightarrow> volGrowth t = 0 \<and> profitGrowth t = 0)
     \<and> (2 \<le> card (spec_populatedMonths ys) \<longrightarrow>
          volGrowth t =
            spec_growth fl (spec_monthVolume ys (Max (spec_populatedMonths ys)))
              (spec_monthVolume ys
                 (Max (spec_populatedMonths ys - {Max (spec_populatedMonths ys)})))
          \<and> profitGrowth t =
            spec_growth fl (spec_monthProfit fl ys (Max (spec_populatedMonths ys)))
              (spec_monthProfit fl ys
                 (Max (spec_populatedMonths ys - {Max (spec_populatedMonths ys)}))))"
proof -
  let ?M = "spec_populatedMonths ys"
  let ?K = "monthKey ` set ys"
  let ?g = "keyOfMonth y"
  have yr': "\<forall>s\<in>set ys. year (anchorDate s) = y \<and> month (anchorDate s) < 100"
    using yr by auto
  note k = keys_of_year [OF yr']
  have card: "card ?K = card ?M" unfolding k(1) using k(2) by (rule card_image)
  have finM: "finite ?M" by (simp add: spec_populatedMonths_def)
  have Mne: "?M \<noteq> {}" using ne by (simp add: spec_populatedMonths_def)
  show ?thesis
  proof (cases "card ?M < 2")
    case True
    then have "card ?K < 2" using card by simp
    from annualTotals_fl_one_month [OF ne this, of fl] True show ?thesis by simp
  next
    case False
    then have two: "2 \<le> card ?M" by simp
    then have twoK: "2 \<le> card ?K" using card by simp
    let ?m1 = "Max ?M"
    let ?m2 = "Max (?M - {?m1})"
    have m1in: "?m1 \<in> ?M" using finM Mne by (rule Max_in)
    have "card (?M - {?m1}) \<ge> 1" using two m1in finM by simp
    then have restne: "?M - {?m1} \<noteq> {}" by (metis card.empty not_one_le_zero)
    have m2in: "?m2 \<in> ?M - {?m1}" using finM restne by (intro Max_in) auto
    have mono: "\<And>a b. a \<in> ?M \<Longrightarrow> b \<in> ?M \<Longrightarrow> a \<le> b \<Longrightarrow> ?g a \<le> ?g b"
      using k(3) by (simp add: keyOfMonth_le)
    have k1: "Max ?K = ?g ?m1"
      unfolding k(1) using finM Mne mono by (rule Max_image_mono_on)
    have diff: "?K - {?g ?m1} = ?g ` (?M - {?m1})"
      unfolding k(1) using k(2) m1in by (auto simp: inj_on_def)
    have k2: "Max (?K - {Max ?K}) = ?g ?m2"
      unfolding k1 diff using finM restne mono by (intro Max_image_mono_on) auto
    have lt: "?m1 < 100" "?m2 < 100" using k(3) m1in m2in by auto
    have nonempty: "Max ?K \<noteq> []" "Max (?K - {Max ?K}) \<noteq> []"
      unfolding k2 unfolding k1 by (simp_all add: keyOfMonth_def format_yyyy_MM_nonempty)
    from annualTotals_fl_two_months [OF ne twoK nonempty, of fl]
    show ?thesis
      unfolding k2 unfolding k1 k(4) [OF lt(1)] k(4) [OF lt(2)]
      using two by (simp add: spec_monthVolume_def spec_monthProfit_def)
  qed
qed

theorem month_over_month_growth_witness:
  "[sample_march, sample_april] \<noteq> []
   \<and> year (anchorDate sample_march) = 2024 \<and> month (anchorDate sample_march) \<in> {1..12}
   \<and> year (anchorDate sample_april) = 2024 \<and> month (anchorDate sample_april) \<in> {1..12}
   \<and> 2 \<le> card (spec_populatedMonths [sample_march, sample_april])
   \<and> (\<exists>t. annualTotals_fl (\<lambda>x. x) [sample_march, sample_april] = Some t
          \<and> volGrowth t = 0 \<and> profitGrowth t = 50)
   \<and> (\<exists>t. annualTotals_fl (\<lambda>x. x) [sample_march_zero, sample_april] = Some t
          \<and> volGrowth t = 0 \<and> profitGrowth t = 100)
   \<and> (\<exists>t. annualTotals_fl (\<lambda>x. x) [sample_march_cents, sample_april] = Some t
          \<and> volGrowth t = 0 \<and> profitGrowth t = 37400)
   \<and> (\<exists>t. annualTotals_fl sample_rounding [sample_march_cents, sample_april] = Some t
          \<and> volGrowth t = 0 \<and> profitGrowth t = 100)
   \<and> (\<exists>t. annualTotals_fl (\<lambda>x. x) [sample_march_decimal, sample_april] = Some t
          \<and> volGrowth t = 0 \<and> profitGrowth t = 100)
   \<and> (\<exists>t. annualTotals_fl double_round [sample_march_double, sample_april] = Some t
          \<and> volGrowth t = 0 \<and> profitGrowth t = 5298352502788818944)
   \<and> card (spec_populatedMonths [sample_april]) < 2
   \<and> (\<exists>t. annualTotals_fl (\<lambda>x. x) [sample_april] = Some t
          \<and> volGrowth t = 0 \<and> profitGrowth t = 0)"
proof -
  have valid: "\<forall>s\<in>set [sample_march, sample_march_zero, sample_march_cents,
        sample_march_decimal, sample_march_double, sample_april].
      year (anchorDate s) = 2024 \<and> month (anchorDate s) \<in> {1..12}"
    by (simp add: sample_march_def sample_march_zero_def sample_march_cents_def
        sample_march_decimal_def sample_march_double_def
        sample_april_def blank_record_def anchorDate_def)
  have double: "\<exists>t. annualTotals_fl double_round [sample_march_double, sample_april] = Some t
      \<and> volGrowth t = 0 \<and> profitGrowth t = 5298352502788818944"
    using month_over_month_growth [of "[sample_march_double, sample_april]" 2024 double_round]
      valid
    by (simp add: sample_months sample_months_double sample_buckets_double
        sample_growth_double)
  have one: "card (spec_populatedMonths [sample_april]) < 2"
    by (simp add: spec_populatedMonths_def)
  show ?thesis
    using month_over_month_growth [of "[sample_march, sample_april]" 2024 "\<lambda>x. x"]
      month_over_month_growth [of "[sample_march_zero, sample_april]" 2024 "\<lambda>x. x"]
      month_over_month_growth [of "[sample_march_cents, sample_april]" 2024 "\<lambda>x. x"]
      month_over_month_growth [of "[sample_march_cents, sample_april]" 2024 sample_rounding]
      month_over_month_growth [of "[sample_march_decimal, sample_april]" 2024 "\<lambda>x. x"]
      month_over_month_growth [of "[sample_april]" 2024 "\<lambda>x. x"] valid one double
    by (simp add: sample_months sample_months_double sample_buckets sample_buckets_rounded
        sample_buckets_decimal spec_growth_def sample_rounding_values)
qed

subsection \<open>Top clients and top routes\<close>

lemma insert_by_insort:
  "insert_by byCountDesc x xs = insort_key (\<lambda>e. - int (snd e)) x xs"
  by (induction xs) (simp_all add: byCountDesc_def)

lemma sort_by_sort_key: "sort_by byCountDesc xs = sort_key (\<lambda>e. - int (snd e)) xs"
  by (induction xs) (simp_all add: sort_by_def insert_by_insort)

lemma set_spec_firstSeen: "set (spec_firstSeen xs) = set xs"
  by (induction xs) auto

lemma distinct_spec_firstSeen: "distinct (spec_firstSeen xs)"
  by (induction xs) (auto simp: set_spec_firstSeen)

lemma keys_countStep:
  "map fst (countStep f m s) = (if f s \<in> set (map fst m) then map fst m else map fst m @ [f s])"
  by (simp add: countStep_def Let_def keys_map_set)

lemma map_get_countStep:
  "map_get (countStep f m s) k =
     (if k = f s then Some ((case map_get m k of None \<Rightarrow> 0 | Some n \<Rightarrow> n) + 1) else map_get m k)"
  by (simp add: countStep_def Let_def map_get_map_set)

lemma keys_foldl_countStep:
  "map fst (foldl (countStep f) m ys) =
     map fst m @ filter (\<lambda>n. n \<notin> set (map fst m)) (spec_firstSeen (map f ys))"
proof (induction ys arbitrary: m)
  case Nil
  then show ?case by simp
next
  case (Cons y ys)
  show ?case
  proof (cases "f y \<in> set (map fst m)")
    case True
    then have "filter (\<lambda>n. n \<notin> set (map fst m)) (filter (\<lambda>n. n \<noteq> f y) (spec_firstSeen (map f ys)))
      = filter (\<lambda>n. n \<notin> set (map fst m)) (spec_firstSeen (map f ys))"
      by (auto intro: filter_cong)
    with True show ?thesis by (simp add: Cons.IH keys_countStep del: set_map)
  next
    case False
    have "filter (\<lambda>n. n \<notin> set (map fst m @ [f y])) (spec_firstSeen (map f ys))
      = filter (\<lambda>n. n \<notin> set (map fst m)) (filter (\<lambda>n. n \<noteq> f y) (spec_firstSeen (map f ys)))"
      by (auto intro: filter_cong)
    with False show ?thesis by (simp add: Cons.IH keys_countStep del: set_map)
  qed
qed

lemma map_get_foldl_countStep:
  "map_get (foldl (countStep f) m ys) k =
     (if k \<in> f ` set ys
      then Some ((case map_get m k of None \<Rightarrow> 0 | Some n \<Rightarrow> n) + count_list (map f ys) k)
      else map_get m k)"
proof (induction ys arbitrary: m)
  case Nil
  then show ?case by simp
next
  case (Cons y ys)
  show ?case by (auto simp: Cons.IH map_get_countStep count_list_0_iff)
qed

lemma alist_rebuild:
  "distinct (map fst l) \<Longrightarrow> l = map (\<lambda>k. (k, the (map_get l k))) (map fst l)"
proof (induction l)
  case Nil
  then show ?case by simp
next
  case (Cons e l)
  from Cons.prems have "fst e \<notin> set (map fst l)" by simp
  then have "\<forall>k\<in>set (map fst l). map_get (e # l) k = map_get l k"
    by (cases e) (force simp: map_get_def)
  then have "map (\<lambda>k. (k, the (map_get (e # l) k))) (map fst l)
      = map (\<lambda>k. (k, the (map_get l k))) (map fst l)"
    by (intro map_cong) auto
  with Cons show ?case by (simp add: map_get_def)
qed

lemma counts_first_seen:
  "foldl (countStep f) [] ys =
     map (\<lambda>n. (n, count_list (map f ys) n)) (spec_firstSeen (map f ys))"
proof -
  let ?l = "foldl (countStep f) [] ys"
  have keys: "map fst ?l = spec_firstSeen (map f ys)"
    by (simp add: keys_foldl_countStep)
  then have "distinct (map fst ?l)" by (simp add: distinct_spec_firstSeen)
  then have "?l = map (\<lambda>k. (k, the (map_get ?l k))) (map fst ?l)" by (rule alist_rebuild)
  also have "\<dots> = map (\<lambda>k. (k, the (map_get ?l k))) (spec_firstSeen (map f ys))"
    by (simp only: keys)
  also have "\<dots> = map (\<lambda>n. (n, count_list (map f ys) n)) (spec_firstSeen (map f ys))"
    by (intro map_cong) (auto simp: map_get_foldl_countStep set_spec_firstSeen map_get_Nil)
  finally show ?thesis .
qed

lemma rankedCounts_groups:
  "rankedCounts f ys = sort_key (\<lambda>e. - int (snd e)) (spec_groups (map f ys))"
  by (simp add: rankedCounts_def sort_by_sort_key counts_first_seen spec_groups_def)

lemma keys_spec_groups: "map fst (spec_groups names) = spec_firstSeen names"
  by (simp add: spec_groups_def comp_def)

lemma ranked_spec:
  "spec_ranked_by_count names (sort_key (\<lambda>e. - int (snd e)) (spec_groups names))"
proof -
  let ?key = "\<lambda>e :: string \<times> nat. - int (snd e)"
  let ?G = "spec_groups names"
  let ?R = "sort_key ?key ?G"
  have setR: "set ?R = set ?G" by simp
  have keysR: "set (map fst ?R) = set names"
    using keys_spec_groups [of names] set_spec_firstSeen [of names]
    by (metis set_map setR)
  have "card (set (map fst ?R)) = length (map fst ?R)"
  proof -
    have "card (set (map fst ?R)) = card (set (spec_firstSeen names))"
      by (simp only: keysR set_spec_firstSeen)
    also have "\<dots> = length (spec_firstSeen names)"
      using distinct_spec_firstSeen by (rule distinct_card)
    also have "\<dots> = length (map fst ?R)"
      by (simp add: spec_groups_def)
    finally show ?thesis .
  qed
  then have dist: "distinct (map fst ?R)" by (rule card_distinct)
  have cnt: "list_all (\<lambda>e. snd e = count_list names (fst e)) ?R"
    unfolding list_all_iff setR by (auto simp: spec_groups_def)
  have "sorted (map ?key ?R)" by (rule sorted_sort_key)
  then have srt: "sorted_wrt (\<lambda>a b. snd b \<le> snd a) ?R"
    by (simp add: sorted_wrt_map)
  have stab: "map fst (filter (\<lambda>e. snd e = c) ?R)
      = filter (\<lambda>n. count_list names n = c) (spec_firstSeen names)" for c
  proof -
    have "filter (\<lambda>e. snd e = c) ?R = filter (\<lambda>e. ?key e = - int c) ?R"
      by (intro filter_cong) auto
    also have "\<dots> = filter (\<lambda>e. ?key e = - int c) ?G" by (rule sort_key_stable)
    also have "\<dots> = filter (\<lambda>e. snd e = c) ?G" by (intro filter_cong) auto
    finally show ?thesis by (simp add: spec_groups_def filter_map comp_def)
  qed
  show ?thesis
    unfolding spec_ranked_by_count_def
    using dist keysR cnt srt stab by (simp add: list_all_iff)
qed

lemma clientName_cases:
  "(client s = None \<or> client s = Some [] \<longrightarrow> clientName s = ''Unknown'')
   \<and> (\<forall>c. client s = Some c \<and> c \<noteq> [] \<longrightarrow> clientName s = c)"
  by (auto simp: clientName_def)

lemma example_names:
  assumes "map client ys = [Some ''Acme'', Some ''Acme'', Some ''Beta'']"
  shows "map clientName ys = [''Acme'', ''Acme'', ''Beta'']"
proof -
  have "map clientName ys = map (\<lambda>c. case c of None \<Rightarrow> ''Unknown''
          | Some c \<Rightarrow> if c = [] then ''Unknown'' else c) (map client ys)"
    by (simp add: clientName_def comp_def)
  then show ?thesis unfolding assms by simp
qed

lemma example_top:
  "take 5 (sort_key (\<lambda>e. - int (snd e)) (spec_groups [''Acme'', ''Acme'', ''Beta'']))
     = [(''Acme'', 2), (''Beta'', 1)]"
  by (simp add: spec_groups_def)

lemma routeName_separator: "routeName s = pol s @ route_separator @ pod s"
  by (simp add: routeName_def route_separator_def)

lemma arrow_not_space: "char_of (226 :: nat) \<noteq> CHR '' ''"
  by (simp add: char_of_def bit_Suc_0_iff)

lemma split_at_first:
  assumes "x \<notin> set xs" "x \<notin> set xs'"
  shows "xs @ x # ys = xs' @ x # ys' \<longleftrightarrow> xs = xs' \<and> ys = ys'"
proof
  assume eq: "xs @ x # ys = xs' @ x # ys'"
  have "takeWhile (\<lambda>y. y \<noteq> x) (xs @ x # ys) = xs"
    using assms(1) by (subst takeWhile_append2) auto
  moreover have "takeWhile (\<lambda>y. y \<noteq> x) (xs' @ x # ys') = xs'"
    using assms(2) by (subst takeWhile_append2) auto
  ultimately have "xs = xs'" using eq by simp
  with eq show "xs = xs' \<and> ys = ys'" by simp
qed simp

lemma routeName_eq_iff:
  assumes "char_of (226 :: nat) \<notin> set (pol s)" "char_of (226 :: nat) \<notin> set (pol s')"
  shows "routeName s = routeName s' \<longleftrightarrow> pol s = pol s' \<and> pod s = pod s'"
proof -
  let ?a = "char_of (226 :: nat) :: char"
  let ?rest = "[char_of (134 :: nat), char_of (146 :: nat)] @ '' ''"
  have shape: "routeName r = (pol r @ '' '') @ ?a # (?rest @ pod r)" for r
    by (simp add: routeName_def)
  have notin: "?a \<notin> set (pol s @ '' '')" "?a \<notin> set (pol s' @ '' '')"
    using assms arrow_not_space by simp_all
  have "routeName s = routeName s'
      \<longleftrightarrow> pol s @ '' '' = pol s' @ '' '' \<and> ?rest @ pod s = ?rest @ pod s'"
    unfolding shape using notin by (rule split_at_first)
  then show ?thesis by simp
qed

lemma example_routes:
  assumes "map pol ys = [''SHA'', ''SHA'', ''NGB'']" "map pod ys = [''LAX'', ''LAX'', ''HAM'']"
  shows "map routeName ys = [''SHA'' @ route_separator @ ''LAX'',
           ''SHA'' @ route_separator @ ''LAX'', ''NGB'' @ route_separator @ ''HAM'']"
proof -
  have "map routeName ys
      = map (\<lambda>(a, b). a @ route_separator @ b) (zip (map pol ys) (map pod ys))"
    by (induction ys) (simp_all add: routeName_separator)
  then show ?thesis unfolding assms by simp
qed

lemma example_top_routes:
  "take 5 (sort_key (\<lambda>e. - int (snd e))
     (spec_groups [''SHA'' @ route_separator @ ''LAX'', ''SHA'' @ route_separator @ ''LAX'',
        ''NGB'' @ route_separator @ ''HAM'']))
     = [(''SHA'' @ route_separator @ ''LAX'', 2), (''NGB'' @ route_separator @ ''HAM'', 1)]"
  by (simp add: spec_groups_def)

text \<open>
  C7. The top clients are the first five entries of the ranking of the client names of
  the records, a missing or empty client counting as \<open>Unknown\<close>; the top routes are the
  first five entries of the ranking of the route names. The route name of a record is its
  origin port, the separator with the arrow, and its destination port, one after the
  other; for origin ports without the arrow's first byte two records have the same route
  name exactly when they have the same origin and the same destination. A ranking lists
  each name once with the number of its records, the counts descending, names of equal
  count in the order in which they are first met. Records with the clients Acme, Acme,
  Beta give Acme with 2, then Beta with 1; records from SHA to LAX, SHA to LAX and NGB to
  HAM give the first route with 2, then the second with 1.
\<close>

theorem top_groupings_ranked:
  "spec_ranked_by_count (map clientName ys) (rankedCounts clientName ys)
   \<and> topClients ys = take 5 (rankedCounts clientName ys)
   \<and> spec_ranked_by_count (map routeName ys) (rankedCounts routeName ys)
   \<and> topRoutes ys = take 5 (rankedCounts routeName ys)
   \<and> length (topClients ys) \<le> 5 \<and> length (topRoutes ys) \<le> 5
   \<and> (client s = None \<or> client s = Some [] \<longrightarrow> clientName s = ''Unknown'')
   \<and> (\<forall>c. client s = Some c \<and> c \<noteq> [] \<longrightarrow> clientName s = c)
   \<and> routeName s = pol s @ route_separator @ pod s
   \<and> (char_of (226 :: nat) \<notin> set (pol s) \<and> char_of (226 :: nat) \<notin> set (pol s') \<longrightarrow>
        (routeName s = routeName s' \<longleftrightarrow> pol s = pol s' \<and> pod s = pod s'))
   \<and> (map client ys = [Some ''Acme'', Some ''Acme'', Some ''Beta'']
        \<longrightarrow> topClients ys = [(''Acme'', 2), (''Beta'', 1)])
   \<and> (map pol ys = [''SHA'', ''SHA'', ''NGB''] \<and> map pod ys = [''LAX'', ''LAX'', ''HAM'']
        \<longrightarrow> topRoutes ys = [(''SHA'' @ route_separator @ ''LAX'', 2),
                            (''NGB'' @ route_separator @ ''HAM'', 1)])"
proof -
  have ranked:
    "spec_ranked_by_count (map clientName ys) (rankedCounts clientName ys)"
    "spec_ranked_by_count (map routeName ys) (rankedCounts routeName ys)"
    by (simp_all add: rankedCounts_groups ranked_spec del: sort_key_simps)
  have len: "length (topClients ys) \<le> 5" "length (topRoutes ys) \<le> 5"
    by (simp_all add: topClients_def topRoutes_def)
  have key: "char_of (226 :: nat) \<notin> set (pol s) \<and> char_of (226 :: nat) \<notin> set (pol s') \<longrightarrow>
        (routeName s = routeName s' \<longleftrightarrow> pol s = pol s' \<and> pod s = pod s')"
    using routeName_eq_iff [of s s'] by blast
  have ex1: "topClients ys = [(''Acme'', 2), (''Beta'', 1)]"
    if "map client ys = [Some ''Acme'', Some ''Acme'', Some ''Beta'']"
    unfolding topClients_def rankedCounts_groups example_names [OF that] by (rule example_top)
  have ex2: "topRoutes ys = [(''SHA'' @ route_separator @ ''LAX'', 2),
                            (''NGB'' @ route_separator @ ''HAM'', 1)]"
    if "map pol ys = [''SHA'', ''SHA'', ''NGB''] \<and> map pod ys = [''LAX'', ''LAX'', ''HAM'']"
    unfolding topRoutes_def rankedCounts_groups
      example_routes [OF that [THEN conjunct1] that [THEN conjunct2]]
    by (rule example_top_routes)
  from ranked len key ex1 ex2 clientName_cases [of s] routeName_separator [of s]
  show ?thesis unfolding topClients_def topRoutes_def by blast
qed

theorem top_groupings_ranked_witness:
  "map client [sample_sha_lax, sample_sha_lax, sample_ngb_ham]
     = [Some ''Acme'', Some ''Acme'', Some ''Beta'']
   \<and> topClients [sample_sha_lax, sample_sha_lax, sample_ngb_ham]
       = [(''Acme'', 2), (''Beta'', 1)]
   \<and> map pol [sample_sha_lax, sample_sha_lax, sample_ngb_ham] = [''SHA'', ''SHA'', ''NGB'']
   \<and> map pod [sample_sha_lax, sample_sha_lax, sample_ngb_ham] = [''LAX'', ''LAX'', ''HAM'']
   \<and> topRoutes [sample_sha_lax, sample_sha_lax, sample_ngb_ham]
       = [(''SHA'' @ route_separator @ ''LAX'', 2), (''NGB'' @ route_separator @ ''HAM'', 1)]
   \<and> routeName sample_sha_lax
       = ''SHA '' @ [char_of (226 :: nat), char_of (134 :: nat), char_of (146 :: nat)] @ '' LAX''
   \<and> char_of (226 :: nat) \<notin> set (pol sample_sha_lax)
   \<and> char_of (226 :: nat) \<notin> set (pol sample_ngb_ham)
   \<and> routeName sample_sha_lax \<noteq> routeName sample_ngb_ham
   \<and> client blank_record = None
   \<and> clientName blank_record = ''Unknown''
   \<and> client sample_ngb_ham = Some ''Beta''
   \<and> clientName sample_ngb_ham = ''Beta''"
proof -
  let ?ys = "[sample_sha_lax, sample_sha_lax, sample_ngb_ham]"
  have cl: "map client ?ys = [Some ''Acme'', Some ''Acme'', Some ''Beta'']"
    by (simp add: sample_sha_lax_def sample_ngb_ham_def sample_march_def sample_april_def)
  have po: "map pol ?ys = [''SHA'', ''SHA'', ''NGB'']" "map pod ?ys = [''LAX'', ''LAX'', ''HAM'']"
    "pol sample_sha_lax = ''SHA''" "pod sample_sha_lax = ''LAX''"
    "pol sample_ngb_ham = ''NGB''" "pod sample_ngb_ham = ''HAM''"
    by (simp_all add: sample_sha_lax_def sample_ngb_ham_def)
  have ar: "char_of (226 :: nat) \<notin> set (pol sample_sha_lax)"
    "char_of (226 :: nat) \<notin> set (pol sample_ngb_ham)"
    by (simp_all add: po char_of_def bit_Suc_0_iff)
  have b: "client blank_record = None" by (simp add: blank_record_def)
  have a: "client sample_ngb_ham = Some ''Beta''"
    by (simp add: sample_ngb_ham_def sample_april_def)
  note th1 = top_groupings_ranked [of ?ys blank_record blank_record]
  note th2 = top_groupings_ranked [of ?ys sample_ngb_ham sample_ngb_ham]
  note th3 = top_groupings_ranked [of ?ys sample_sha_lax sample_ngb_ham]
  from th1 cl po(1,2) b
  have 1: "topClients ?ys = [(''Acme'', 2), (''Beta'', 1)]"
    "topRoutes ?ys = [(''SHA'' @ route_separator @ ''LAX'', 2),
                      (''NGB'' @ route_separator @ ''HAM'', 1)]"
    "clientName blank_record = ''Unknown''"
    by blast+
  from th2 a have 2: "clientName sample_ngb_ham = ''Beta''" by simp
  from th3 have "routeName sample_sha_lax = pol sample_sha_lax @ route_separator @ pod sample_sha_lax"
    by blast
  then have 3: "routeName sample_sha_lax
       = ''SHA '' @ [char_of (226 :: nat), char_of (134 :: nat), char_of (146 :: nat)] @ '' LAX''"
    by (simp add: po route_separator_def)
  from th3 ar have "routeName sample_sha_lax = routeName sample_ngb_ham
      \<longleftrightarrow> pol sample_sha_lax = pol sample_ngb_ham \<and> pod sample_sha_lax = pod sample_ngb_ham"
    by blast
  then have 4: "routeName sample_sha_lax \<noteq> routeName sample_ngb_ham"
    by (simp add: po)
  from cl po(1,2) ar b a 1 2 3 4 show ?thesis by simp
qed

subsection \<open>The empty collection, and the profit of the statistics view\<close>

text \<open>
  The two facts of this subsection do not depend on the rounding: they hold of the annual
  totals in the arithmetic of the host as well, for every rounding that keeps 0.
\<close>

lemma annualTotals_fl_empty:
  "annualTotals_fl fl [] = Some \<lparr>vol = 0, profit = 0, volGrowth = 0, profitGrowth = 0\<rparr>"
  by (simp add: annualTotals_fl_def)

lemma annualTotals_fl_sample_thc:
  assumes "fl 0 = 0"
  shows "map_option profit (annualTotals_fl fl [sample_thc]) = Some 0"
proof -
  have s: "statsProfit_fl fl sample_thc = 0"
    by (simp add: statsProfit_fl_def sample_thc_def blank_record_def or_num_def assms)
  have "annualTotals_fl fl [sample_thc] = Some \<lparr>vol = length [sample_thc],
          profit = foldl (\<lambda>p s. fl (p + statsProfit_fl fl s)) 0 [sample_thc],
          volGrowth = 0, profitGrowth = 0\<rparr>"
    by (rule annualTotals_fl_one_month) simp_all
  then show ?thesis by (simp add: s assms)
qed

text \<open>
  C8. On the empty collection the year's records are empty, the annual volume and profit
  and both growths are 0, and the chart data, the top clients and the top routes are
  empty.
\<close>

theorem aggregator_on_empty_collection:
  "yearShipments [] y = []
   \<and> annualTotals [] = Some \<lparr>vol = 0, profit = 0, volGrowth = 0, profitGrowth = 0\<rparr>
   \<and> chartData lib viewMode [] = []
   \<and> topClients [] = []
   \<and> topRoutes [] = []"
  by (simp add: yearShipments_def annualTotals_def chartData_def topClients_def topRoutes_def
      rankedCounts_def sort_by_def)

text \<open>
  C1. The statistics view adds up ocean freight, trucking and customs only. For a record
  whose only fee is a THC price of 100, the list view's net profit is 100, while the
  annual profit and the profit of the record's bucket in the chart are 0.
\<close>

theorem stats_profit_omits_additional_fees:
  "calculateTotalProfit sample_thc = 100
   \<and> map_option profit (annualTotals [sample_thc]) = Some 0
   \<and> map profit_e (chartData lib viewMode [sample_thc]) = [0]"
proof -
  have a: "calculateTotalProfit sample_thc = 100"
    by (simp add: calculateTotalProfit_def sample_thc_def blank_record_def feeKeys_def
        addFee_def or_num_def)
  have s: "statsProfit sample_thc = 0"
    by (simp add: statsProfit_def sample_thc_def blank_record_def or_num_def)
  have "annualTotals [sample_thc] = Some \<lparr>vol = length [sample_thc],
          profit = sum_list (map statsProfit [sample_thc]), volGrowth = 0, profitGrowth = 0\<rparr>"
    by (rule annualTotals_one_month) simp_all
  then have b: "map_option profit (annualTotals [sample_thc]) = Some 0"
    by (simp add: s)
  have c: "map profit_e (chartData lib viewMode [sample_thc]) = [0]"
    by (simp add: chartData_def chartStep_def Let_def map_get_def sort_by_def s)
  from a b c show ?thesis by simp
qed

end
